theory Spec2Isabelle
  imports Main "HOL-Library.Word" "HOL-Library.AList" "HOL-Library.List_Lexorder"
begin

text \<open>
  A model of the persistence and suggestion logic of the GoodCup application: the
  OpenAI wrapper module (credential lookup, call wrapper, prompt construction,
  lenient decoding of the model's answer, image analysis), the brew form and the
  brews screen (saving and loading brews) and the settings screen (equipment and
  default selections). Functions of the platform, such as \<open>JSON.parse\<close>, are
  parameters.
\<close>

section \<open>JavaScript strings\<close>

text \<open>
  A JavaScript string is a sequence of UTF-16 code units. String literals of
  the source are ASCII and are written with \<open>js\<close>.
\<close>

type_synonym jschar = "16 word"
type_synonym jsstring = "jschar list"

definition js :: "string \<Rightarrow> jsstring" where
  "js s = map of_char s"

text \<open>
  The characters removed by \<open>String.prototype.trim\<close> and matched by the
  regular expression class \<open>\s\<close>: WhiteSpace and LineTerminator of ECMAScript.
\<close>

definition isWhiteSpace :: "jschar \<Rightarrow> bool" where
  "isWhiteSpace c \<longleftrightarrow>
     c = 0x09 \<or> c = 0x0A \<or> c = 0x0B \<or> c = 0x0C \<or> c = 0x0D \<or> c = 0x20 \<or>
     c = 0xA0 \<or> c = 0x1680 \<or> (0x2000 \<le> c \<and> c \<le> 0x200A) \<or>
     c = 0x2028 \<or> c = 0x2029 \<or> c = 0x202F \<or> c = 0x205F \<or> c = 0x3000 \<or>
     c = 0xFEFF"

definition trimStart :: "jsstring \<Rightarrow> jsstring" where
  "trimStart s = dropWhile isWhiteSpace s"

definition trimEnd :: "jsstring \<Rightarrow> jsstring" where
  "trimEnd s = rev (dropWhile isWhiteSpace (rev s))"

definition trim :: "jsstring \<Rightarrow> jsstring" where
  "trim s = trimStart (trimEnd s)"

definition startsWith :: "jsstring \<Rightarrow> jsstring \<Rightarrow> bool" where
  "startsWith s p \<longleftrightarrow> take (length p) s = p"

definition endsWith :: "jsstring \<Rightarrow> jsstring \<Rightarrow> bool" where
  "endsWith s p \<longleftrightarrow> length p \<le> length s \<and> drop (length s - length p) s = p"

text \<open>
  \<open>s.lastIndexOf(p)\<close>: the greatest position at which \<open>p\<close> occurs in \<open>s\<close>;
  \<open>None\<close> stands for the result \<open>-1\<close>.
\<close>

fun lastIndexFrom :: "jsstring \<Rightarrow> jsstring \<Rightarrow> nat \<Rightarrow> nat option" where
  "lastIndexFrom s p 0 = (if startsWith s p then Some 0 else None)"
| "lastIndexFrom s p (Suc i) =
     (if startsWith (drop (Suc i) s) p then Some (Suc i) else lastIndexFrom s p i)"

definition lastIndexOf :: "jsstring \<Rightarrow> jsstring \<Rightarrow> nat option" where
  "lastIndexOf s p = lastIndexFrom s p (length s)"

text \<open>\<open>s.includes(p)\<close>: \<open>p\<close> occurs somewhere in \<open>s\<close>.\<close>

fun includesStr :: "jsstring \<Rightarrow> jsstring \<Rightarrow> bool" where
  "includesStr [] p = (p = [])"
| "includesStr (c # s) p = (startsWith (c # s) p \<or> includesStr s p)"

section \<open>JSON values\<close>

text \<open>
  The values produced by \<open>JSON.parse\<close>. The type of numbers is a parameter:
  the functions below only pass numbers through. An object is the list of its
  own properties in insertion order; a property is read with \<open>map_of\<close> and
  assigned with \<open>AList.update\<close>, which keeps the position of an existing key.
\<close>

datatype 'n json =
    JNull
  | JBool bool
  | JNum 'n
  | JStr jsstring
  | JArr "'n json list"
  | JObj "(jsstring \<times> 'n json) list"

text \<open>
  The errors of the OpenAI wrapper module. The first six are the errors the module
  throws itself, named after their messages; \<open>StoredDocumentInvalid\<close> is the
  \<open>SyntaxError\<close> of \<open>JSON.parse\<close> on a stored document, and \<open>CallFailed\<close> an
  error of the API client with its message.
\<close>

datatype error =
    ApiKeyNotFound
  | ClientInitFailed
  | NoValidResponse
  | ParseOrExtractFailed
  | ImageParseFailed
  | NoContentReturned
  | StoredDocumentInvalid
  | CallFailed jsstring

section \<open>The key-value store and the visible effects\<close>

text \<open>
  \<open>AsyncStorage\<close> is a store of strings under string keys. Every operation on
  it, every alert shown and every request sent to the completion API is recorded
  in \<open>events\<close>, in the order in which it happens; storage operations always
  succeed.
\<close>

datatype request =
    SuggestionRequest jsstring
  | ImageRequest jsstring

datatype event =
    GetItem jsstring
  | SetItem jsstring jsstring
  | RemoveItem jsstring
  | Alert jsstring jsstring
  | ApiRequest request

record world =
  items :: "jsstring \<rightharpoonup> jsstring"
  events :: "event list"

definition getItem :: "jsstring \<Rightarrow> world \<Rightarrow> jsstring option \<times> world" where
  "getItem k w = (items w k, w\<lparr>events := events w @ [GetItem k]\<rparr>)"

definition setItem :: "jsstring \<Rightarrow> jsstring \<Rightarrow> world \<Rightarrow> world" where
  "setItem k v w = w\<lparr>items := (items w)(k \<mapsto> v), events := events w @ [SetItem k v]\<rparr>"

definition removeItem :: "jsstring \<Rightarrow> world \<Rightarrow> world" where
  "removeItem k w = w\<lparr>items := (items w)(k := None), events := events w @ [RemoveItem k]\<rparr>"

definition alert :: "jsstring \<Rightarrow> jsstring \<Rightarrow> world \<Rightarrow> world" where
  "alert title message w = w\<lparr>events := events w @ [Alert title message]\<rparr>"

section \<open>The API credential and the call wrapper\<close>

definition API_KEY_STORAGE_KEY :: jsstring where
  "API_KEY_STORAGE_KEY = js ''@GoodCup:openaiApiKey''"

definition apiKeyPlaceholder :: jsstring where
  "apiKeyPlaceholder = js ''your_openai_api_key_here''"

text \<open>
  \<open>getApiKeyInternal\<close>: the build-time environment value \<open>expoApiKey\<close> first
  (\<open>None\<close> when the variable is not set), then the stored value. An empty string
  is falsy.
\<close>

definition getApiKeyInternal :: "jsstring option \<Rightarrow> world \<Rightarrow> jsstring option \<times> world" where
  "getApiKeyInternal expoApiKey w =
     (if (case expoApiKey of
            None \<Rightarrow> False
          | Some k \<Rightarrow> k \<noteq> [] \<and> trim k \<noteq> [] \<and> k \<noteq> apiKeyPlaceholder)
      then (expoApiKey, w)
      else
        (case getItem API_KEY_STORAGE_KEY w of
           (apiKey, w1) \<Rightarrow>
             (if (case apiKey of None \<Rightarrow> False | Some k \<Rightarrow> k \<noteq> [] \<and> trim k \<noteq> [])
              then (apiKey, w1)
              else (None, w1))))"

text \<open>
  \<open>makeOpenAICall\<close>: \<open>newClient\<close> is the constructor of the API client
  (\<open>None\<close> when it throws) and \<open>callFunction\<close> the function to run with the
  client, which may do anything to the world.
\<close>

definition makeOpenAICall ::
  "jsstring option \<Rightarrow> (jsstring \<Rightarrow> 'c option) \<Rightarrow>
   ('c \<Rightarrow> world \<Rightarrow> (error + 'r) \<times> world) \<Rightarrow> world \<Rightarrow> (error + 'r) \<times> world" where
  "makeOpenAICall expoApiKey newClient callFunction w =
     (case getApiKeyInternal expoApiKey w of
        (None, w1) \<Rightarrow> (Inl ApiKeyNotFound, w1)
      | (Some apiKey, w1) \<Rightarrow>
          (if apiKey = [] then (Inl ApiKeyNotFound, w1)
           else
             (case newClient apiKey of
                None \<Rightarrow> (Inl ClientInitFailed, w1)
              | Some client \<Rightarrow> callFunction client w1)))"

text \<open>
  A credential the wrapper accepts: an environment value that is not blank and
  not the placeholder, or else a stored value that is not blank.
\<close>

definition usableEnvKey :: "jsstring option \<Rightarrow> bool" where
  "usableEnvKey expoApiKey \<longleftrightarrow>
     (\<exists>k. expoApiKey = Some k \<and> trim k \<noteq> [] \<and> k \<noteq> apiKeyPlaceholder)"

definition usableStoredKey :: "world \<Rightarrow> bool" where
  "usableStoredKey w \<longleftrightarrow> (\<exists>k. items w API_KEY_STORAGE_KEY = Some k \<and> trim k \<noteq> [])"

section \<open>Brews, equipment and the suggestion prompt\<close>

text \<open>
  The interfaces of the source as records. A \<open>number\<close> holds a count of seconds
  (the slider moves in steps of 5, the timer counts whole seconds), a rating (steps
  of 1) or a timestamp of \<open>Date.now()\<close>: these are whole numbers that a double
  holds exactly (of absolute value below \<open>2^53\<close>), and they are modelled as
  integers. An optional property is an \<open>option\<close>, \<open>None\<close> being \<open>undefined\<close>.
  The field \<open>id\<close> is named \<open>brewId\<close> and \<open>deviceId\<close>.
\<close>

record Brew =
  brewId :: jsstring
  timestamp :: int
  beanName :: jsstring
  steepTime :: int
  useBloom :: bool
  bloomTime :: "jsstring option"
  grindSize :: jsstring
  waterTemp :: jsstring
  rating :: int
  "notes" :: jsstring
  brewDevice :: "jsstring option"
  grinder :: "jsstring option"

record BrewDevice =
  deviceId :: jsstring
  deviceName :: jsstring
  deviceType :: jsstring
  deviceNotes :: "jsstring option"

type_synonym Grinder = BrewDevice

text \<open>
  The message contents of the choices of a chat completion; \<open>None\<close> for a choice
  without message or with null content.
\<close>

type_synonym completion = "jsstring option list"

text \<open>
  What the code takes from the platform: \<open>JSON.parse\<close> (\<open>None\<close> when it throws
  a \<open>SyntaxError\<close>), \<open>JSON.parse\<close> and \<open>JSON.stringify\<close> at the declared types
  of the stored documents, \<open>String.prototype.toLowerCase\<close>, the environment
  variable \<open>EXPO_PUBLIC_OPENAI_API_KEY\<close>, the constructor of the API client and
  the client's \<open>chat.completions.create\<close>.
\<close>

record ('n, 'c) platform =
  JSON_parse :: "jsstring \<Rightarrow> 'n json option"
  parseDevices :: "jsstring \<Rightarrow> BrewDevice list option"
  stringifyDevices :: "BrewDevice list \<Rightarrow> jsstring"
  parseBrews :: "jsstring \<Rightarrow> Brew list option"
  stringifyBrews :: "Brew list \<Rightarrow> jsstring"
  stringifyNames :: "jsstring list \<Rightarrow> jsstring"
  toLowerCase :: "jsstring \<Rightarrow> jsstring"
  EXPO_PUBLIC_OPENAI_API_KEY :: "jsstring option"
  newOpenAI :: "jsstring \<Rightarrow> 'c option"
  createCompletion :: "'c \<Rightarrow> request \<Rightarrow> error + completion"

definition BREW_DEVICES_STORAGE_KEY :: jsstring where
  "BREW_DEVICES_STORAGE_KEY = js ''@GoodCup:brewDevices''"

definition GRINDERS_STORAGE_KEY :: jsstring where
  "GRINDERS_STORAGE_KEY = js ''@GoodCup:grinders''"

text \<open>A string value in a condition: \<open>undefined\<close> and the empty string are falsy.\<close>

definition truthy :: "jsstring option \<Rightarrow> bool" where
  "truthy x = (case x of None \<Rightarrow> False | Some s \<Rightarrow> s \<noteq> [])"

text \<open>\<open>x || d\<close> on an optional string.\<close>

definition orElse :: "jsstring option \<Rightarrow> jsstring \<Rightarrow> jsstring" where
  "orElse x d = (case x of None \<Rightarrow> d | Some s \<Rightarrow> if s \<noteq> [] then s else d)"

text \<open>
  The decimal form of an integer, as a template literal, \<open>toString\<close> and
  \<open>JSON.stringify\<close> print it. The model is meant for the whole numbers of
  absolute value below \<open>2^53\<close>, which covers seconds, ratings and timestamps: on
  them the division, the remainder and the decimal form of the source are those of
  the integers.
\<close>

fun natToString :: "nat \<Rightarrow> jsstring" where
  "natToString n =
     (if n < 10 then [of_nat (48 + n)]
      else natToString (n div 10) @ [of_nat (48 + n mod 10)])"

definition numToString :: "int \<Rightarrow> jsstring" where
  "numToString n = (if n < 0 then js ''-'' @ natToString (nat (- n)) else natToString (nat n))"

text \<open>The remainder operator \<open>%\<close>: the result has the sign of the dividend.\<close>

definition jsRem :: "int \<Rightarrow> int \<Rightarrow> int" where
  "jsRem a b = (if a < 0 then - ((- a) mod \<bar>b\<bar>) else a mod \<bar>b\<bar>)"

definition formatTime :: "int \<Rightarrow> jsstring" where
  "formatTime totalSeconds =
     (if totalSeconds = 0 then js ''0:00''
      else
        (let minutes = totalSeconds div 60;
             seconds = jsRem totalSeconds 60
         in numToString minutes @ js '':'' @
            (if seconds < 10 then js ''0'' else []) @ numToString seconds))"

fun joinWith :: "jsstring \<Rightarrow> jsstring list \<Rightarrow> jsstring" where
  "joinWith sep [] = []"
| "joinWith sep [x] = x"
| "joinWith sep (x # y # ys) = x @ sep @ joinWith sep (y # ys)"

text \<open>
  \<open>devices.find(d => d.id === id)?.name || 'Unknown'\<close>, for an equipment id that
  is set.
\<close>

definition lookupName :: "BrewDevice list \<Rightarrow> jsstring \<Rightarrow> jsstring" where
  "lookupName devices i =
     orElse (map_option deviceName (find (\<lambda>device. deviceId device = i) devices))
            (js ''Unknown'')"

definition equipmentName :: "BrewDevice list \<Rightarrow> jsstring option \<Rightarrow> jsstring option" where
  "equipmentName devices i =
     (if truthy i then Some (lookupName devices (the i)) else None)"

text \<open>
  The names of the equipment mentioned in the notes, looked for only when no
  name was found by id and the notes are not empty.
\<close>

definition possibleEquipment ::
  "(jsstring \<Rightarrow> jsstring) \<Rightarrow> BrewDevice list \<Rightarrow> jsstring option \<Rightarrow> jsstring \<Rightarrow> jsstring list" where
  "possibleEquipment lower devices resolvedName brewNotes =
     (if \<not> truthy resolvedName \<and> brewNotes \<noteq> []
      then map deviceName
             (filter (\<lambda>device. includesStr (lower brewNotes) (lower (deviceName device))) devices)
      else [])"

text \<open>
  The previous brews that go into the prompt: filtered by bean name when a
  selected bean name is given, sorted by rating, highest first (the sort is stable),
  and cut to five.
\<close>

definition relevantBrews ::
  "(jsstring \<Rightarrow> jsstring) \<Rightarrow> jsstring option \<Rightarrow> Brew list \<Rightarrow> Brew list" where
  "relevantBrews lower selectedBeanName previousBrews =
     take 5
       (sort_key (\<lambda>brew. - rating brew)
          (filter (\<lambda>brew. if truthy selectedBeanName
                          then lower (beanName brew) = lower (the selectedBeanName)
                          else True)
             previousBrews))"

definition bloomLine :: "Brew \<Rightarrow> jsstring" where
  "bloomLine brew =
     (if useBloom brew
      then js ''- Bloom: Yes ('' @ orElse (bloomTime brew) (js ''unspecified time'') @ js '')''
      else js ''- Bloom: No'')"

definition notesLine :: "Brew \<Rightarrow> jsstring" where
  "notesLine brew = (if notes brew \<noteq> [] then js ''- Notes: '' @ notes brew else [])"

definition promptHead ::
  "Brew \<Rightarrow> jsstring option \<Rightarrow> jsstring option \<Rightarrow> jsstring list \<Rightarrow> jsstring list \<Rightarrow> jsstring" where
  "promptHead currentBrew brewDeviceName grinderName possibleDevices possibleGrinders =
     js ''As a coffee expert, I'm analyzing a brew of '' @ beanName currentBrew @
     js ''. Here are the details:\<newline>'' @
     js ''\<newline>'' @
     js ''Current Brew:\<newline>'' @
     js ''- Steep Time: '' @ formatTime (steepTime currentBrew) @ js ''\<newline>'' @
     js ''- Grind Size: '' @ grindSize currentBrew @ js ''\<newline>'' @
     js ''- Water Temperature: '' @ waterTemp currentBrew @ js ''\<newline>'' @
     bloomLine currentBrew @ js ''\<newline>'' @
     (if truthy brewDeviceName then js ''- Brewing Device: '' @ the brewDeviceName else []) @
     js ''\<newline>'' @
     (if truthy grinderName then js ''- Grinder: '' @ the grinderName else []) @
     js ''\<newline>'' @
     notesLine currentBrew @ js ''\<newline>'' @
     (if rating currentBrew \<noteq> 0
      then js ''- Rating: '' @ numToString (rating currentBrew) @ js ''/10'' else []) @
     js ''\<newline>'' @
     js ''\<newline>'' @
     (if possibleDevices \<noteq> []
      then js ''Possibly using these brew devices: '' @ joinWith (js '', '') possibleDevices
      else []) @
     js ''\<newline>'' @
     (if possibleGrinders \<noteq> []
      then js ''Possibly using these grinders: '' @ joinWith (js '', '') possibleGrinders
      else []) @
     js ''\<newline>''"

text \<open>The paragraph of one previous brew; \<open>index\<close> counts from 0.\<close>

definition previousBrewText :: "nat \<Rightarrow> Brew \<Rightarrow> jsstring" where
  "previousBrewText index brew =
     js ''\<newline>Brew #'' @ natToString (index + 1) @
     js '' (Rating: '' @ numToString (rating brew) @ js ''/10):\<newline>'' @
     js ''- Steep Time: '' @ formatTime (steepTime brew) @ js ''\<newline>'' @
     js ''- Grind Size: '' @ grindSize brew @ js ''\<newline>'' @
     js ''- Water Temperature: '' @ waterTemp brew @ js ''\<newline>'' @
     bloomLine brew @ js ''\<newline>'' @
     notesLine brew @ js ''\<newline>''"

definition promptHistory :: "Brew list \<Rightarrow> jsstring" where
  "promptHistory relevant =
     (if relevant \<noteq> []
      then js ''\<newline>Relevant previous brews of the same bean (sorted by rating):\<newline>'' @
           concat (map (\<lambda>(index, brew). previousBrewText index brew) (enumerate 0 relevant))
      else [])"

definition promptTail :: "jsstring option \<Rightarrow> jsstring" where
  \<open>promptTail currentGrinderName =
     (js ''\<newline>'' @
     js ''Based on the current brew and any previous brews of the same bean, please provide concise suggestions to improve the brewing process. Consider these factors:\<newline>'' @
     js ''1. Grind size adjustments\<newline>'' @
     js ''2. Steep time modifications\<newline>'' @
     js ''3. Water temperature changes\<newline>'' @
     js ''4. Bloom technique\<newline>'' @
     js ''5. Any other techniques that might enhance the flavor\<newline>'' @
     js ''\<newline>'' @
     js ''Please provide specific, actionable advice that would help achieve a better extraction and flavor profile.\<newline>'' @
     js ''\<newline>'' @
     js ''If previous brews with the same grinder ('') @
     orElse currentGrinderName (js ''used previously'') @
     (js '') exist and used specific click settings (e.g., "18 clicks"), base your grind size suggestion on those clicks (e.g., suggest "17 clicks" or "19 clicks"). Otherwise, provide a descriptive suggestion (e.g., "Medium-Fine").\<newline>'' @
     js ''\<newline>'' @
     js ''Return the response ONLY as a valid JSON object with the following structure:\<newline>'' @
     js ''{\<newline>'' @
     js ''  "suggestionText": "<Your detailed textual suggestions here>",\<newline>'' @
     js ''  "suggestedGrindSize": "<Specific suggested grind size, e.g., 'Medium-Fine' or '17 clicks', or null if no specific suggestion>",\<newline>'' @
     js ''  "suggestedWaterTemp": "<Specific water temperature, e.g., '96'' @ [0xB0] @ js ''C', or null>",\<newline>'' @
     js ''  "suggestedSteepTimeSeconds": <Steep time in total seconds, e.g., 180, or null>,\<newline>'' @
     js ''  "suggestedUseBloom": <boolean, true if bloom is recommended, false otherwise>,\<newline>'' @
     js ''  "suggestedBloomTimeSeconds": <Bloom time in seconds, e.g., 30, or null if bloom is not recommended or time is unspecified>\<newline>'' @
     js ''}\<newline>'' @
     js ''Do not include the JSON structure itself within the suggestionText field.'')\<close>

definition buildPrompt ::
  "(jsstring \<Rightarrow> jsstring) \<Rightarrow> BrewDevice list \<Rightarrow> Grinder list \<Rightarrow> Brew \<Rightarrow> Brew list \<Rightarrow>
   jsstring option \<Rightarrow> jsstring option \<Rightarrow> jsstring" where
  "buildPrompt lower brewDevices grinders currentBrew previousBrews selectedBeanName
     currentGrinderName =
     (let brewDeviceName = equipmentName brewDevices (brewDevice currentBrew);
          grinderName = equipmentName grinders (grinder currentBrew);
          possibleDevices = possibleEquipment lower brewDevices brewDeviceName (notes currentBrew);
          possibleGrinders = possibleEquipment lower grinders grinderName (notes currentBrew)
      in promptHead currentBrew brewDeviceName grinderName possibleDevices possibleGrinders @
         promptHistory (relevantBrews lower selectedBeanName previousBrews) @
         promptTail currentGrinderName)"

section \<open>Suggestion responses\<close>

definition suggestionTextKey :: jsstring where
  "suggestionTextKey = js ''suggestionText''"

definition embeddedJsonMarker :: jsstring where
  \<open>embeddedJsonMarker = js '',"suggestedGrindSize":''\<close>

definition onlyJsonMarker :: jsstring where
  \<open>onlyJsonMarker = js ''{"suggestedGrindSize":''\<close>

definition narrativeMissingText :: jsstring where
  "narrativeMissingText =
     js ''Suggestion parameters received, but narrative text missing in response.''"

text \<open>
  Reading \<open>parsedResponse.suggestionText\<close> for a string method call. The string
  methods exist only on a string: on every other value (no object, no such
  property, a property that is not a string) the call throws a \<open>TypeError\<close>,
  which is \<open>None\<close> here.
\<close>

definition suggestionTextOf :: "'n json \<Rightarrow> jsstring option" where
  "suggestionTextOf v =
     (case v of
        JObj props \<Rightarrow>
          (case map_of props suggestionTextKey of Some (JStr t) \<Rightarrow> Some t | _ \<Rightarrow> None)
      | _ \<Rightarrow> None)"

text \<open>The assignment \<open>parsedResponse.suggestionText = t\<close> on an object.\<close>

definition setSuggestionText :: "jsstring \<Rightarrow> 'n json \<Rightarrow> 'n json" where
  "setSuggestionText t v =
     (case v of JObj props \<Rightarrow> JObj (AList.update suggestionTextKey (JStr t) props) | _ \<Rightarrow> v)"

text \<open>
  The first cleaning step: when the marker occurs and the text from its last
  occurrence, trimmed, ends with a closing brace, the text becomes the trimmed text
  before that occurrence.
\<close>

definition stripEmbeddedJson :: "'n json \<Rightarrow> 'n json option" where
  "stripEmbeddedJson parsedResponse =
     (case suggestionTextOf parsedResponse of
        None \<Rightarrow> None
      | Some t \<Rightarrow>
          (case lastIndexOf t embeddedJsonMarker of
             None \<Rightarrow> Some parsedResponse
           | Some jsonStartIndex \<Rightarrow>
               (let potentialEnd = trim (drop jsonStartIndex t)
                in if endsWith potentialEnd (js ''}'')
                   then Some (setSuggestionText (trim (take jsonStartIndex t)) parsedResponse)
                   else Some parsedResponse)))"

text \<open>
  The second cleaning step: a text that, trimmed, starts with the parameter
  object is replaced by a fixed sentence.
\<close>

definition replaceOnlyJson :: "'n json \<Rightarrow> 'n json option" where
  "replaceOnlyJson parsedResponse =
     (case suggestionTextOf parsedResponse of
        None \<Rightarrow> None
      | Some t \<Rightarrow>
          (if startsWith (trim t) onlyJsonMarker
           then Some (setSuggestionText narrativeMissingText parsedResponse)
           else Some parsedResponse))"

definition cleanParsedResponse :: "'n json \<Rightarrow> 'n json option" where
  "cleanParsedResponse parsedResponse =
     Option.bind (stripEmbeddedJson parsedResponse) replaceOnlyJson"

text \<open>
  The fallback expression \<open>"suggestionText":\s*"([^"]*)"\<close>, tried at the start
  of \<open>s\<close>; the result is the text of the group. After the key all white space is
  skipped, a quote must follow, and the group runs up to the next quote, which must
  exist.
\<close>

definition quoteChar :: jschar where
  "quoteChar = 0x22"

definition suggestionTextPattern :: jsstring where
  \<open>suggestionTextPattern = js ''"suggestionText":''\<close>

definition matchSuggestionTextAt :: "jsstring \<Rightarrow> jsstring option" where
  "matchSuggestionTextAt s =
     (if startsWith s suggestionTextPattern
      then
        (case dropWhile isWhiteSpace (drop (length suggestionTextPattern) s) of
           [] \<Rightarrow> None
         | c # rest \<Rightarrow>
             (if c = quoteChar \<and> dropWhile (\<lambda>x. x \<noteq> quoteChar) rest \<noteq> []
              then Some (takeWhile (\<lambda>x. x \<noteq> quoteChar) rest)
              else None))
      else None)"

text \<open>\<open>messageContent.match(...)\<close>: the match at the leftmost position that has one.\<close>

fun matchSuggestionText :: "jsstring \<Rightarrow> jsstring option" where
  "matchSuggestionText [] = matchSuggestionTextAt []"
| "matchSuggestionText (c # s) =
     (case matchSuggestionTextAt (c # s) of
        Some t \<Rightarrow> Some t
      | None \<Rightarrow> matchSuggestionText s)"

text \<open>\<open>replace(/\n/g, '\n')\<close>: every line feed is replaced by a line feed.\<close>

definition replaceNewlines :: "jsstring \<Rightarrow> jsstring" where
  "replaceNewlines t = concat (map (\<lambda>c. if c = 0x0A then [0x0A] else [c]) t)"

definition fallbackResponse :: "jsstring \<Rightarrow> 'n json" where
  "fallbackResponse t =
     JObj [(js ''suggestionText'', JStr (replaceNewlines t)),
           (js ''suggestedGrindSize'', JNull),
           (js ''suggestedWaterTemp'', JNull),
           (js ''suggestedSteepTimeSeconds'', JNull),
           (js ''suggestedUseBloom'', JBool False),
           (js ''suggestedBloomTimeSeconds'', JNull)]"

text \<open>
  The part of \<open>getBrewSuggestions\<close> after the API call: the content of the first
  choice is parsed and cleaned; when parsing or cleaning throws, the fallback
  expression is tried, and its group must not be empty.
\<close>

definition messageContent :: "completion \<Rightarrow> jsstring option" where
  "messageContent response = (case response of [] \<Rightarrow> None | c # _ \<Rightarrow> c)"

definition readSuggestion :: "(jsstring \<Rightarrow> 'n json option) \<Rightarrow> jsstring option \<Rightarrow> error + 'n json" where
  "readSuggestion parse content =
     (if \<not> truthy content then Inl NoValidResponse
      else
        (case Option.bind (parse (the content)) cleanParsedResponse of
           Some parsedResponse \<Rightarrow> Inr parsedResponse
         | None \<Rightarrow>
             (case matchSuggestionText (the content) of
                None \<Rightarrow> Inl ParseOrExtractFailed
              | Some t \<Rightarrow>
                  (if t \<noteq> [] then Inr (fallbackResponse t)
                   else Inl ParseOrExtractFailed))))"

text \<open>
  The call function handed to \<open>makeOpenAICall\<close>: it sends one request with the
  client.
\<close>

definition sendRequest ::
  "('n, 'c) platform \<Rightarrow> request \<Rightarrow> 'c \<Rightarrow> world \<Rightarrow> (error + completion) \<times> world" where
  "sendRequest P req client w =
     (createCompletion P client req, w\<lparr>events := events w @ [ApiRequest req]\<rparr>)"

text \<open>A stored document: absent or empty gives the empty list, otherwise it is parsed.\<close>

definition storedList :: "(jsstring \<Rightarrow> 'a list option) \<Rightarrow> jsstring option \<Rightarrow> 'a list option" where
  "storedList parse stored = (if truthy stored then parse (the stored) else Some [])"

text \<open>
  The first part of \<open>getBrewSuggestions\<close>: the stored equipment is read, the
  prompt is built and sent through \<open>makeOpenAICall\<close>.
\<close>

definition requestSuggestion ::
  "('n, 'c) platform \<Rightarrow> Brew \<Rightarrow> Brew list \<Rightarrow> jsstring option \<Rightarrow> jsstring option \<Rightarrow>
   jsstring option \<Rightarrow> world \<Rightarrow> (error + completion) \<times> world" where
  "requestSuggestion P currentBrew previousBrews selectedBeanName currentGrinderId
     currentGrinderName w =
     (case getItem BREW_DEVICES_STORAGE_KEY w of
        (storedDevices, w1) \<Rightarrow>
     (case getItem GRINDERS_STORAGE_KEY w1 of
        (storedGrinders, w2) \<Rightarrow>
     (case storedList (parseDevices P) storedDevices of
        None \<Rightarrow> (Inl StoredDocumentInvalid, w2)
      | Some brewDevices \<Rightarrow>
     (case storedList (parseDevices P) storedGrinders of
        None \<Rightarrow> (Inl StoredDocumentInvalid, w2)
      | Some grinders \<Rightarrow>
          (let prompt = buildPrompt (toLowerCase P) brewDevices grinders currentBrew
                          previousBrews selectedBeanName currentGrinderName
           in makeOpenAICall (EXPO_PUBLIC_OPENAI_API_KEY P) (newOpenAI P)
                (sendRequest P (SuggestionRequest prompt)) w2)))))"

definition getBrewSuggestions ::
  "('n, 'c) platform \<Rightarrow> Brew \<Rightarrow> Brew list \<Rightarrow> jsstring option \<Rightarrow> jsstring option \<Rightarrow>
   jsstring option \<Rightarrow> world \<Rightarrow> (error + 'n json) \<times> world" where
  "getBrewSuggestions P currentBrew previousBrews selectedBeanName currentGrinderId
     currentGrinderName w =
     (case requestSuggestion P currentBrew previousBrews selectedBeanName currentGrinderId
             currentGrinderName w of
        (Inl e, w3) \<Rightarrow> (Inl e, w3)
      | (Inr response, w3) \<Rightarrow>
          (readSuggestion (JSON_parse P) (messageContent response), w3))"

text \<open>
  The fallback expression read as a pattern: \<open>s\<close> begins with the key, white
  space, and the text \<open>t\<close> between two quotes, \<open>t\<close> having no quote.
\<close>

definition matchesPatternAt :: "jsstring \<Rightarrow> jsstring \<Rightarrow> bool" where
  "matchesPatternAt s t \<longleftrightarrow>
     (\<exists>ws rest. s = suggestionTextPattern @ ws @ [quoteChar] @ t @ [quoteChar] @ rest \<and>
                (\<forall>c \<in> set ws. isWhiteSpace c) \<and> quoteChar \<notin> set t)"

section \<open>Image analysis\<close>





section \<open>Saving and loading brews\<close>

definition BREWS_STORAGE_KEY :: jsstring where
  "BREWS_STORAGE_KEY = js ''@GoodCup:brews''"

definition BEAN_NAMES_STORAGE_KEY :: jsstring where
  "BEAN_NAMES_STORAGE_KEY = js ''@GoodCup:beanNames''"

text \<open>
  The state of the brew form. The bean name is a string or null; the state
  variables that share a name with a property of \<open>Brew\<close> carry the prefix
  \<open>form\<close>.
\<close>

record brewForm =
  formBeanName :: "jsstring option"
  steepTimeSeconds :: int
  formUseBloom :: bool
  formBloomTime :: jsstring
  formGrindSize :: jsstring
  formWaterTemp :: jsstring
  formRating :: int
  formNotes :: jsstring
  selectedBrewDevice :: jsstring
  selectedGrinder :: jsstring

text \<open>\<open>!beanName || !grindSize || !waterTemp\<close>\<close>

definition missingInfo :: "brewForm \<Rightarrow> bool" where
  "missingInfo form \<longleftrightarrow>
     \<not> truthy (formBeanName form) \<or> formGrindSize form = [] \<or> formWaterTemp form = []"

text \<open>
  The object \<open>newBrew\<close>; \<open>idNow\<close> and \<open>timestampNow\<close> are the results of the two
  calls of \<open>Date.now()\<close>.
\<close>

definition newBrew :: "brewForm \<Rightarrow> int \<Rightarrow> int \<Rightarrow> Brew" where
  "newBrew form idNow timestampNow =
     \<lparr>brewId = numToString idNow,
      timestamp = timestampNow,
      beanName = the (formBeanName form),
      steepTime = steepTimeSeconds form,
      useBloom = formUseBloom form,
      bloomTime = (if formUseBloom form then Some (formBloomTime form) else None),
      grindSize = formGrindSize form,
      waterTemp = formWaterTemp form,
      rating = formRating form,
      notes = formNotes form,
      brewDevice = (if selectedBrewDevice form \<noteq> [] then Some (selectedBrewDevice form) else None),
      grinder = (if selectedGrinder form \<noteq> [] then Some (selectedGrinder form) else None)\<rparr>"

definition resetForm :: "brewForm \<Rightarrow> brewForm" where
  "resetForm form =
     form\<lparr>steepTimeSeconds := 180, formUseBloom := False, formBloomTime := [],
          formGrindSize := [], formWaterTemp := [], formRating := 5, formNotes := []\<rparr>"

text \<open>
  \<open>handleSaveBrew\<close> of the brew screen of one bean. A stored document that does
  not parse makes \<open>JSON.parse\<close> throw inside the \<open>try\<close>, which ends in the error
  alert.
\<close>

definition handleSaveBrew ::
  "('n, 'c) platform \<Rightarrow> int \<Rightarrow> int \<Rightarrow> brewForm \<Rightarrow> world \<Rightarrow> brewForm \<times> world" where
  "handleSaveBrew P idNow timestampNow form w =
     (if missingInfo form
      then (form,
            alert (js ''Missing Info'')
              (js ''Please fill in Grind Size, and Water Temp (Bean should be pre-selected).'') w)
      else
        (case getItem BREWS_STORAGE_KEY w of
           (storedBrews, w1) \<Rightarrow>
             (case storedList (parseBrews P) storedBrews of
                None \<Rightarrow> (form, alert (js ''Error'') (js ''Could not save the brew.'') w1)
              | Some existingBrews \<Rightarrow>
                  (let updatedBrews = existingBrews @ [newBrew form idNow timestampNow];
                       w2 = setItem BREWS_STORAGE_KEY (stringifyBrews P updatedBrews) w1
                   in (resetForm form,
                       alert (js ''Success'')
                         (js ''Brew saved for '' @ the (formBeanName form) @ js ''!'') w2)))))"

text \<open>
  \<open>saveBeanName\<close> and \<open>handleSaveBrew\<close> of the home screen, which also keeps the
  list of bean names. The default \<open>sort()\<close> orders strings by their code units.
\<close>

definition saveBeanName ::
  "('n, 'c) platform \<Rightarrow> jsstring option \<Rightarrow> jsstring list \<Rightarrow> world \<Rightarrow> jsstring list \<times> world" where
  "saveBeanName P nameToSave allBeanNames w =
     (if \<not> truthy nameToSave \<or> the nameToSave \<in> set allBeanNames
      then (allBeanNames, w)
      else
        (let updatedNames = sort (allBeanNames @ [the nameToSave])
         in (updatedNames,
             setItem BEAN_NAMES_STORAGE_KEY (stringifyNames P updatedNames) w)))"

definition handleSaveBrewHome ::
  "('n, 'c) platform \<Rightarrow> int \<Rightarrow> int \<Rightarrow> brewForm \<times> jsstring list \<Rightarrow> world \<Rightarrow>
   (brewForm \<times> jsstring list) \<times> world" where
  "handleSaveBrewHome P idNow timestampNow st w =
     (case st of
        (form, allBeanNames) \<Rightarrow>
          (if missingInfo form
           then (st,
                 alert (js ''Missing Info'')
                   (js ''Please fill in Bean Name, Grind Size, and Water Temp.'') w)
           else
             (case saveBeanName P (formBeanName form) allBeanNames w of
                (names1, w0) \<Rightarrow>
             (case getItem BREWS_STORAGE_KEY w0 of
                (storedBrews, w1) \<Rightarrow>
                  (case storedList (parseBrews P) storedBrews of
                     None \<Rightarrow>
                       ((form, names1),
                        alert (js ''Error'') (js ''Could not save the brew.'') w1)
                   | Some existingBrews \<Rightarrow>
                       (let updatedBrews = existingBrews @ [newBrew form idNow timestampNow];
                            w2 = setItem BREWS_STORAGE_KEY (stringifyBrews P updatedBrews) w1
                        in (((resetForm form)\<lparr>formBeanName := None\<rparr>, names1),
                            alert (js ''Success'') (js ''Brew saved successfully!'') w2)))))))"


definition newestFirst :: "Brew list \<Rightarrow> Brew list" where
  "newestFirst brews = sort_key (\<lambda>brew. - timestamp brew) brews"


section \<open>Equipment settings\<close>

definition DEFAULT_BREW_DEVICE_KEY :: jsstring where
  "DEFAULT_BREW_DEVICE_KEY = js ''@GoodCup:defaultBrewDevice''"

definition DEFAULT_GRINDER_KEY :: jsstring where
  "DEFAULT_GRINDER_KEY = js ''@GoodCup:defaultGrinder''"

text \<open>The state of the settings screen that the equipment handlers use.\<close>

record settings =
  brewDevices :: "BrewDevice list"
  grinders :: "Grinder list"
  defaultBrewDevice :: jsstring
  defaultGrinder :: jsstring

definition initialSettings :: settings where
  "initialSettings =
     \<lparr>brewDevices = [], grinders = [], defaultBrewDevice = [], defaultGrinder = []\<rparr>"

definition defaultDevices :: "BrewDevice list" where
  "defaultDevices =
     [\<lparr>deviceId = js ''1'', deviceName = js ''Hario Switch'',
       deviceType = js ''Immersion/Pour Over'',
       deviceNotes = Some (js ''Versatile brewer with ability to switch between immersion and pour over'')\<rparr>,
      \<lparr>deviceId = js ''2'', deviceName = js ''Aeropress'',
       deviceType = js ''Immersion/Pressure'',
       deviceNotes = Some (js ''Portable coffee maker with clean cup'')\<rparr>]"

definition defaultGrinders :: "Grinder list" where
  "defaultGrinders =
     [\<lparr>deviceId = js ''1'', deviceName = js ''1Zpresso J-Max'',
       deviceType = js ''Hand Grinder'',
       deviceNotes = Some (js ''Premium hand grinder with 409 click adjustment'')\<rparr>,
      \<lparr>deviceId = js ''2'', deviceName = js ''Baratza Encore'',
       deviceType = js ''Electric Grinder'',
       deviceNotes = Some (js ''Entry-level electric burr grinder'')\<rparr>]"

text \<open>
  One of the two equipment documents in \<open>loadData\<close>: a stored document is
  parsed (\<open>None\<close> when \<open>JSON.parse\<close> throws), a missing one is replaced by the
  default list, which is written back.
\<close>

definition loadEquipmentList ::
  "('n, 'c) platform \<Rightarrow> jsstring \<Rightarrow> BrewDevice list \<Rightarrow> world \<Rightarrow> BrewDevice list option \<times> world" where
  "loadEquipmentList P key defaults w =
     (case getItem key w of
        (stored, w1) \<Rightarrow>
          (case stored of
             Some text \<Rightarrow> (parseDevices P text, w1)
           | None \<Rightarrow> (Some defaults, setItem key (stringifyDevices P defaults) w1)))"

text \<open>
  \<open>loadData\<close>: the API key, the brew devices, the grinders, then the two default
  selections. When a document does not parse, the \<open>catch\<close> ends the load with
  the state set so far.
\<close>

definition loadData :: "('n, 'c) platform \<Rightarrow> settings \<Rightarrow> world \<Rightarrow> settings \<times> world" where
  "loadData P st w =
     (case getApiKeyInternal (EXPO_PUBLIC_OPENAI_API_KEY P) w of
        (storedApiKey, w0) \<Rightarrow>
     (case loadEquipmentList P BREW_DEVICES_STORAGE_KEY defaultDevices w0 of
        (None, w1) \<Rightarrow> (st, w1)
      | (Some devices, w1) \<Rightarrow>
     (case loadEquipmentList P GRINDERS_STORAGE_KEY defaultGrinders w1 of
        (None, w2) \<Rightarrow> (st\<lparr>brewDevices := devices\<rparr>, w2)
      | (Some grinderList, w2) \<Rightarrow>
     (case getItem DEFAULT_BREW_DEVICE_KEY w2 of
        (defaultDevice, w3) \<Rightarrow>
     (case getItem DEFAULT_GRINDER_KEY w3 of
        (defaultGrinderId, w4) \<Rightarrow>
          (st\<lparr>brewDevices := devices,
              grinders := grinderList,
              defaultBrewDevice :=
                (if truthy defaultDevice then the defaultDevice else defaultBrewDevice st),
              defaultGrinder :=
                (if truthy defaultGrinderId then the defaultGrinderId else defaultGrinder st)\<rparr>,
           w4))))))"

definition handleRemoveBrewDevice ::
  "('n, 'c) platform \<Rightarrow> jsstring \<Rightarrow> settings \<Rightarrow> world \<Rightarrow> settings \<times> world" where
  "handleRemoveBrewDevice P i st w =
     (let updatedDevices = filter (\<lambda>device. deviceId device \<noteq> i) (brewDevices st);
          st1 = st\<lparr>brewDevices := updatedDevices\<rparr>;
          w1 = setItem BREW_DEVICES_STORAGE_KEY (stringifyDevices P updatedDevices) w
      in if defaultBrewDevice st = i
         then (st1\<lparr>defaultBrewDevice := []\<rparr>, removeItem DEFAULT_BREW_DEVICE_KEY w1)
         else (st1, w1))"

definition handleRemoveGrinder ::
  "('n, 'c) platform \<Rightarrow> jsstring \<Rightarrow> settings \<Rightarrow> world \<Rightarrow> settings \<times> world" where
  "handleRemoveGrinder P i st w =
     (let updatedGrinders = filter (\<lambda>grinder. deviceId grinder \<noteq> i) (grinders st);
          st1 = st\<lparr>grinders := updatedGrinders\<rparr>;
          w1 = setItem GRINDERS_STORAGE_KEY (stringifyDevices P updatedGrinders) w
      in if defaultGrinder st = i
         then (st1\<lparr>defaultGrinder := []\<rparr>, removeItem DEFAULT_GRINDER_KEY w1)
         else (st1, w1))"

definition setAsDefaultBrewDevice :: "jsstring \<Rightarrow> settings \<Rightarrow> world \<Rightarrow> settings \<times> world" where
  "setAsDefaultBrewDevice i st w =
     (st\<lparr>defaultBrewDevice := i\<rparr>,
      alert (js ''Success'') (js ''Default brew device set successfully.'')
        (setItem DEFAULT_BREW_DEVICE_KEY i w))"

definition setAsDefaultGrinder :: "jsstring \<Rightarrow> settings \<Rightarrow> world \<Rightarrow> settings \<times> world" where
  "setAsDefaultGrinder i st w =
     (st\<lparr>defaultGrinder := i\<rparr>,
      alert (js ''Success'') (js ''Default grinder set successfully.'')
        (setItem DEFAULT_GRINDER_KEY i w))"

section \<open>The JSON text of the stored brews\<close>

text \<open>
  The brews are stored as the text that \<open>JSON.stringify\<close> gives for the array
  and are read back by \<open>JSON.parse\<close>. Both are modelled on the values of type
  \<open>int json\<close> as ECMA-262 defines them: \<open>jsonStringify\<close> follows
  SerializeJSONProperty without replacer and gap, \<open>jsonParse\<close> reads the JSON
  grammar. The numbers are the whole numbers of the model; a number with a fraction
  or an exponent is outside it and is not read.
\<close>

























definition valueEnd :: "jsstring \<Rightarrow> bool" where
  "valueEnd rest \<longleftrightarrow> rest = [] \<or> hd rest = 0x2C \<or> hd rest = 0x5D \<or> hd rest = 0x7D"










section \<open>A platform for examples\<close>

text \<open>
  Lower case on the letters A to Z, as \<open>toLowerCase\<close> acts on ASCII text.
\<close>

definition asciiToLowerCase :: "jsstring \<Rightarrow> jsstring" where
  "asciiToLowerCase s = map (\<lambda>c. if 0x41 \<le> c \<and> c \<le> 0x5A then c + 0x20 else c) s"

text \<open>
  A platform with an API key in the environment, no stored equipment to parse,
  a given \<open>JSON.parse\<close> and a completion API that answers every request with one
  choice of content \<open>answer\<close>.
\<close>

definition examplePlatform ::
  "(jsstring \<Rightarrow> int json option) \<Rightarrow> jsstring option \<Rightarrow> (int, jsstring) platform" where
  "examplePlatform parse answer =
     \<lparr>JSON_parse = parse,
      parseDevices = (\<lambda>s. None),
      stringifyDevices = (\<lambda>ds. []),
      parseBrews = (\<lambda>s. None),
      stringifyBrews = (\<lambda>bs. []),
      stringifyNames = (\<lambda>ns. []),
      toLowerCase = asciiToLowerCase,
      EXPO_PUBLIC_OPENAI_API_KEY = Some (js ''sk-example''),
      newOpenAI = Some,
      createCompletion = (\<lambda>client req. Inr [answer])\<rparr>"

definition emptyWorld :: world where
  "emptyWorld = \<lparr>items = Map.empty, events = []\<rparr>"

definition exampleBrew :: Brew where
  "exampleBrew =
     \<lparr>brewId = js ''1700000000000'', timestamp = 1700000000000,
      beanName = js ''Yirgacheffe'', steepTime = 180, useBloom = False, bloomTime = None,
      grindSize = js ''Medium'', waterTemp = js ''96'' @ [0xB0] @ js ''C'', rating = 8,
      notes = [], brewDevice = None, grinder = None\<rparr>"

text \<open>The content contains a match of the fallback expression somewhere.\<close>

definition containsSuggestionText :: "jsstring \<Rightarrow> bool" where
  "containsSuggestionText content \<longleftrightarrow>
     (\<exists>before s t. content = before @ s \<and> matchesPatternAt s t)"

text \<open>
  Example responses. \<open>responseText t\<close> is the JSON text of a suggestion with
  narrative \<open>t\<close> (quotes and backslashes escaped) and \<open>suggestionObject t\<close> the
  value \<open>JSON.parse\<close> gives for it; \<open>parseOnly text v\<close> is \<open>JSON.parse\<close> as far as
  it is known on the one text.
\<close>

definition escapeJson :: "jsstring \<Rightarrow> jsstring" where
  "escapeJson t = concat (map (\<lambda>c. if c = 0x22 \<or> c = 0x5C then [0x5C, c] else [c]) t)"

definition responseText :: "jsstring \<Rightarrow> jsstring" where
  \<open>responseText t =
     js ''{"suggestionText":"'' @ escapeJson t @
     js ''","suggestedGrindSize":"Fine","suggestedWaterTemp":null,'' @
     js ''"suggestedSteepTimeSeconds":180,"suggestedUseBloom":false,'' @
     js ''"suggestedBloomTimeSeconds":null}''\<close>

definition suggestionObject :: "jsstring \<Rightarrow> int json" where
  "suggestionObject t =
     JObj [(js ''suggestionText'', JStr t),
           (js ''suggestedGrindSize'', JStr (js ''Fine'')),
           (js ''suggestedWaterTemp'', JNull),
           (js ''suggestedSteepTimeSeconds'', JNum 180),
           (js ''suggestedUseBloom'', JBool False),
           (js ''suggestedBloomTimeSeconds'', JNull)]"

definition parseOnly :: "jsstring \<Rightarrow> 'n json \<Rightarrow> jsstring \<Rightarrow> 'n json option" where
  "parseOnly text v s = (if s = text then Some v else None)"

definition echoedText :: jsstring where
  \<open>echoedText = js ''Grind finer. ,"suggestedGrindSize":"Fine"}''\<close>

text \<open>Further example responses and narratives.\<close>

definition truncatedContent :: jsstring where
  \<open>truncatedContent = js ''{"suggestionText": "Grind finer", "suggestedGrindSize": "Fine"''\<close>

definition emptyTextContent :: jsstring where
  \<open>emptyTextContent = js ''{"suggestionText": "", "suggestedGrindSize": "Fine"''\<close>

definition refusalContent :: jsstring where
  "refusalContent = js ''I am sorry, I cannot help with that.''"

definition onlyJsonText :: jsstring where
  \<open>onlyJsonText = js '' {"suggestedGrindSize":"Fine"}''\<close>

definition cleanText :: jsstring where
  "cleanText = js ''Grind a little finer.''"

definition rejectAll :: "jsstring \<Rightarrow> int json option" where
  "rejectAll s = None"

definition duplicateJsonText :: jsstring where
  \<open>duplicateJsonText = js ''{"suggestedGrindSize":"Fine","suggestedGrindSize":"Fine"}''\<close>

definition trailingSpaceText :: jsstring where
  \<open>trailingSpaceText = js ''Grind finer. ,"suggestedGrindSize":"Fine"} ''\<close>

definition namelessDevice :: BrewDevice where
  "namelessDevice =
     \<lparr>deviceId = js ''9'', deviceName = [], deviceType = js ''Dripper'', deviceNotes = None\<rparr>"




definition exampleForm :: brewForm where
  "exampleForm =
     \<lparr>formBeanName = Some (js ''Yirgacheffe''), steepTimeSeconds = 180, formUseBloom = False,
      formBloomTime = [], formGrindSize = js ''Medium'',
      formWaterTemp = js ''96'' @ [0xB0] @ js ''C'', formRating = 8, formNotes = [],
      selectedBrewDevice = [], selectedGrinder = []\<rparr>"






definition exampleDevices :: "BrewDevice list" where
  "exampleDevices =
     [\<lparr>deviceId = js ''1'', deviceName = js ''Hario Switch'',
       deviceType = js ''Immersion/Pour Over'', deviceNotes = None\<rparr>,
      \<lparr>deviceId = js ''1712345678901'', deviceName = js ''Aeropress'',
       deviceType = js ''Immersion/Pressure'', deviceNotes = None\<rparr>]"

definition exampleDevicesText :: jsstring where
  \<open>exampleDevicesText =
     js ''[{"id":"1","name":"Hario Switch","type":"Immersion/Pour Over"},'' @
     js ''{"id":"1712345678901","name":"Aeropress","type":"Immersion/Pressure"}]''\<close>

definition remainingDevicesText :: jsstring where
  \<open>remainingDevicesText =
     js ''[{"id":"1712345678901","name":"Aeropress","type":"Immersion/Pressure"}]''\<close>

definition exampleGrinders :: "Grinder list" where
  "exampleGrinders =
     [\<lparr>deviceId = js ''2'', deviceName = js ''Baratza Encore'',
       deviceType = js ''Electric Grinder'', deviceNotes = None\<rparr>]"

definition exampleGrindersText :: jsstring where
  \<open>exampleGrindersText =
     js ''[{"id":"2","name":"Baratza Encore","type":"Electric Grinder"}]''\<close>

definition equipmentPlatform :: "(int, jsstring) platform" where
  "equipmentPlatform =
     (examplePlatform rejectAll None)
       \<lparr>parseDevices :=
          (\<lambda>s. if s = exampleDevicesText then Some exampleDevices
                else if s = exampleGrindersText then Some exampleGrinders
                else None),
        stringifyDevices :=
          (\<lambda>ds. if ds = exampleDevices then exampleDevicesText
                 else if ds = tl exampleDevices then remainingDevicesText
                 else if ds = exampleGrinders then exampleGrindersText
                 else js ''[]'')\<rparr>"

definition settingsWorld :: world where
  "settingsWorld =
     \<lparr>items = [BREW_DEVICES_STORAGE_KEY \<mapsto> exampleDevicesText,
               GRINDERS_STORAGE_KEY \<mapsto> exampleGrindersText,
               DEFAULT_BREW_DEVICE_KEY \<mapsto> js ''1''],
      events = []\<rparr>"

text \<open>
  The state of the settings screen after loading \<open>settingsWorld\<close>; a store whose
  grinders document is cut off, and a store whose default brew device is no device of
  the list.
\<close>

definition loadedSettings :: settings where
  "loadedSettings =
     \<lparr>brewDevices = exampleDevices, grinders = exampleGrinders,
      defaultBrewDevice = js ''1'', defaultGrinder = []\<rparr>"

definition truncatedGrindersText :: jsstring where
  \<open>truncatedGrindersText = js ''[{"id":"2","name":"Baratza Encore","type":"Electric''\<close>

definition corruptSettingsWorld :: world where
  "corruptSettingsWorld =
     \<lparr>items = [BREW_DEVICES_STORAGE_KEY \<mapsto> exampleDevicesText,
               GRINDERS_STORAGE_KEY \<mapsto> truncatedGrindersText,
               DEFAULT_BREW_DEVICE_KEY \<mapsto> js ''1''],
      events = []\<rparr>"

definition danglingSettingsWorld :: world where
  "danglingSettingsWorld =
     \<lparr>items = [BREW_DEVICES_STORAGE_KEY \<mapsto> exampleDevicesText,
               GRINDERS_STORAGE_KEY \<mapsto> exampleGrindersText,
               DEFAULT_BREW_DEVICE_KEY \<mapsto> js ''7''],
      events = []\<rparr>"

text \<open>
  The brews among which the prompt chooses, following the words of the specification: those of the
  selected bean when one is given.
\<close>

definition candidateBrews ::
  "(jsstring \<Rightarrow> jsstring) \<Rightarrow> jsstring option \<Rightarrow> Brew list \<Rightarrow> Brew list" where
  "candidateBrews lower selectedBeanName previousBrews =
     (case selectedBeanName of
        None \<Rightarrow> previousBrews
      | Some name \<Rightarrow>
          (if name = [] then previousBrews
           else filter (\<lambda>brew. lower (beanName brew) = lower name) previousBrews))"

text \<open>Two more brews for examples.\<close>

definition kenyaBrew :: Brew where
  "kenyaBrew = exampleBrew\<lparr>brewId := js ''1700000100000'', timestamp := 1700000100000,
                 beanName := js ''Kenya AA'', rating := 9\<rparr>"

definition bestBrew :: Brew where
  "bestBrew = exampleBrew\<lparr>brewId := js ''1700000200000'', timestamp := 1700000200000,
                rating := 9\<rparr>"

section \<open>Strings\<close>

lemma lastIndexFrom_Some:
  "lastIndexFrom s p n = Some i \<Longrightarrow>
     i \<le> n \<and> startsWith (drop i s) p \<and> (\<forall>j. i < j \<and> j \<le> n \<longrightarrow> \<not> startsWith (drop j s) p)"
proof (induction n)
  case 0
  then show ?case by (simp split: if_splits)
next
  case (Suc n)
  show ?case
  proof (cases "startsWith (drop (Suc n) s) p")
    case True
    with Suc.prems have "i = Suc n" by simp
    with True show ?thesis by auto
  next
    case False
    with Suc.prems have "lastIndexFrom s p n = Some i" by simp
    with Suc.IH have ih: "i \<le> n" "startsWith (drop i s) p"
      "\<forall>j. i < j \<and> j \<le> n \<longrightarrow> \<not> startsWith (drop j s) p" by simp_all
    have "\<not> startsWith (drop j s) p" if "i < j" "j \<le> Suc n" for j
      using that ih(3) False by (cases "j = Suc n") auto
    with ih show ?thesis by simp
  qed
qed

lemma lastIndexFrom_None:
  "lastIndexFrom s p n = None \<Longrightarrow> j \<le> n \<Longrightarrow> \<not> startsWith (drop j s) p"
proof (induction n)
  case 0
  then show ?case by (simp split: if_splits)
next
  case (Suc n)
  then show ?case by (cases "j = Suc n") (auto split: if_splits)
qed

lemma lastIndexFrom_eqI:
  assumes "i \<le> n" "startsWith (drop i s) p"
    and "\<And>j. i < j \<Longrightarrow> j \<le> n \<Longrightarrow> \<not> startsWith (drop j s) p"
  shows "lastIndexFrom s p n = Some i"
proof (cases "lastIndexFrom s p n")
  case None
  with assms(1,2) show ?thesis using lastIndexFrom_None by blast
next
  case (Some k)
  from lastIndexFrom_Some [OF Some]
  have k: "k \<le> n" "startsWith (drop k s) p"
    "\<forall>j. k < j \<and> j \<le> n \<longrightarrow> \<not> startsWith (drop j s) p" by simp_all
  have "\<not> k < i" using k(3) assms(1,2) by blast
  moreover have "\<not> i < k" using assms(3) k(1,2) by blast
  ultimately show ?thesis using Some by simp
qed

lemma trimStart_id: "s = [] \<or> \<not> isWhiteSpace (hd s) \<Longrightarrow> trimStart s = s"
  by (cases s) (auto simp: trimStart_def)

lemma trimEnd_id: "s = [] \<or> \<not> isWhiteSpace (last s) \<Longrightarrow> trimEnd s = s"
  by (cases s rule: rev_cases) (auto simp: trimEnd_def)

lemma trimEnd_shape: "trimEnd s = [] \<or> \<not> isWhiteSpace (last (trimEnd s))"
proof (cases "dropWhile isWhiteSpace (rev s)")
  case Nil
  then show ?thesis by (simp add: trimEnd_def)
next
  case (Cons c cs)
  then have "\<not> isWhiteSpace c" by (metis hd_dropWhile list.distinct(1) list.sel(1))
  with Cons show ?thesis by (simp add: trimEnd_def)
qed

lemma trimStart_shape: "trimStart s = [] \<or> \<not> isWhiteSpace (hd (trimStart s))"
  unfolding trimStart_def by (metis hd_dropWhile)

lemma trimStart_last: "trimStart s \<noteq> [] \<Longrightarrow> last (trimStart s) = last s"
  unfolding trimStart_def
  by (metis last_appendR takeWhile_dropWhile_id)

lemma trim_shape:
  "trim s = [] \<or> (\<not> isWhiteSpace (hd (trim s)) \<and> \<not> isWhiteSpace (last (trim s)))"
  unfolding trim_def
  using trimStart_shape [of "trimEnd s"] trimStart_last [of "trimEnd s"] trimEnd_shape [of s]
  by (metis trimStart_def dropWhile.simps(1))

lemma trim_id:
  "s = [] \<or> (\<not> isWhiteSpace (hd s) \<and> \<not> isWhiteSpace (last s)) \<Longrightarrow> trim s = s"
  unfolding trim_def using trimEnd_id [of s] trimStart_id [of s] by auto

lemma trim_trim: "trim (trim s) = trim s"
  using trim_shape [of s] trim_id [of "trim s"] by blast

lemma replaceNewlines_id: "replaceNewlines t = t"
  unfolding replaceNewlines_def by (induction t) auto

text \<open>\<open>startsWith\<close> and \<open>includesStr\<close> are the prefix and the substring relation.\<close>

lemma startsWith_iff: "startsWith s p \<longleftrightarrow> (\<exists>rest. s = p @ rest)"
  unfolding startsWith_def
  by (metis append_eq_conv_conj append_take_drop_id)

lemma includesStr_iff: "includesStr s p \<longleftrightarrow> (\<exists>before rest. s = before @ p @ rest)"
proof (induction s)
  case Nil
  then show ?case by auto
next
  case (Cons c s)
  show ?case
  proof
    assume "includesStr (c # s) p"
    then consider "startsWith (c # s) p" | "includesStr s p" by auto
    then show "\<exists>before rest. c # s = before @ p @ rest"
    proof cases
      case 1
      then obtain rest where "c # s = p @ rest" using startsWith_iff by blast
      then have "c # s = [] @ p @ rest" by simp
      then show ?thesis by blast
    next
      case 2
      with Cons.IH obtain before rest where "s = before @ p @ rest" by blast
      then have "c # s = (c # before) @ p @ rest" by simp
      then show ?thesis by blast
    qed
  next
    assume "\<exists>before rest. c # s = before @ p @ rest"
    then obtain before rest where e: "c # s = before @ p @ rest" by blast
    show "includesStr (c # s) p"
    proof (cases before)
      case Nil
      with e have "startsWith (c # s) p" using startsWith_iff by auto
      then show ?thesis by simp
    next
      case (Cons b bs)
      with e have "s = bs @ p @ rest" by simp
      with Cons.IH have "includesStr s p" by blast
      then show ?thesis by simp
    qed
  qed
qed

section \<open>Reading the response\<close>

lemma getBrewSuggestions_response:
  assumes "fst (requestSuggestion P b prev sel gid gname w) = Inr response"
  shows "getBrewSuggestions P b prev sel gid gname w =
           (readSuggestion (JSON_parse P) (messageContent response),
            snd (requestSuggestion P b prev sel gid gname w))"
  using assms by (cases "requestSuggestion P b prev sel gid gname w") (simp add: getBrewSuggestions_def)

lemma startsWith_nonempty:
  "startsWith s p \<Longrightarrow> p \<noteq> [] \<Longrightarrow> s \<noteq> [] \<and> hd s = hd p"
  unfolding startsWith_def by (cases s; cases p) auto

lemma endsWith_singleton: "endsWith s [c] \<longleftrightarrow> s \<noteq> [] \<and> last s = c"
proof (cases s rule: rev_cases)
  case Nil
  then show ?thesis by (simp add: endsWith_def)
next
  case (snoc ys y)
  then show ?thesis by (auto simp: endsWith_def)
qed

lemma embeddedJsonMarker_hd: "embeddedJsonMarker \<noteq> [] \<and> \<not> isWhiteSpace (hd embeddedJsonMarker)"
  by (simp add: embeddedJsonMarker_def js_def isWhiteSpace_def)

lemma brace_not_space: "js ''}'' = [0x7D] \<and> \<not> isWhiteSpace 0x7D"
  by (simp add: js_def isWhiteSpace_def)

lemma suggestionTextOf_update:
  "suggestionTextOf (JObj (AList.update suggestionTextKey (JStr t) props)) = Some t"
  by (simp add: suggestionTextOf_def update_conv')

lemma cleanParsedResponse_strip:
  assumes "map_of props suggestionTextKey = Some (JStr t)"
    and "lastIndexOf t embeddedJsonMarker = Some i"
    and "endsWith (trim (drop i t)) (js ''}'')"
  shows "cleanParsedResponse (JObj props) =
           Some (JObj (AList.update suggestionTextKey
                   (JStr (if startsWith (trim (take i t)) onlyJsonMarker
                          then narrativeMissingText else trim (take i t))) props))"
  using assms
  by (simp add: cleanParsedResponse_def stripEmbeddedJson_def replaceOnlyJson_def
        suggestionTextOf_def setSuggestionText_def update_conv' trim_trim)

lemma cleanParsedResponse_keep:
  assumes "map_of props suggestionTextKey = Some (JStr t)"
    and "lastIndexOf t embeddedJsonMarker = None \<or>
         (\<exists>i. lastIndexOf t embeddedJsonMarker = Some i \<and> \<not> endsWith (trim (drop i t)) (js ''}''))"
  shows "cleanParsedResponse (JObj props) =
           Some (if startsWith (trim t) onlyJsonMarker
                 then JObj (AList.update suggestionTextKey (JStr narrativeMissingText) props)
                 else JObj props)"
  using assms
  by (auto simp add: cleanParsedResponse_def stripEmbeddedJson_def replaceOnlyJson_def
        suggestionTextOf_def setSuggestionText_def)

lemma example_key_usable:
  "trim (js ''sk-example'') \<noteq> [] \<and> js ''sk-example'' \<noteq> [] \<and> js ''sk-example'' \<noteq> apiKeyPlaceholder"
  by (simp add: js_def trim_def trimStart_def trimEnd_def isWhiteSpace_def apiKeyPlaceholder_def)

lemma requestSuggestion_example:
  "fst (requestSuggestion (examplePlatform parse answer) b prev sel gid gname emptyWorld) = Inr [answer]"
  using example_key_usable
  by (simp add: requestSuggestion_def examplePlatform_def emptyWorld_def getItem_def
        storedList_def truthy_def makeOpenAICall_def getApiKeyInternal_def sendRequest_def Let_def)

lemma lastIndexOf_later:
  assumes "lastIndexOf s p = Some i" and "p \<noteq> []" and "i < j"
  shows "\<not> startsWith (drop j s) p"
proof (cases "j \<le> length s")
  case True
  with lastIndexFrom_Some [OF assms(1) [unfolded lastIndexOf_def]] assms(3) show ?thesis by blast
next
  case False
  with assms(2) show ?thesis by (auto simp: startsWith_def)
qed

lemma quote_not_space: "\<not> isWhiteSpace quoteChar"
  by (simp add: quoteChar_def isWhiteSpace_def)

lemma takeWhile_until: "q \<notin> set t \<Longrightarrow> takeWhile (\<lambda>x. x \<noteq> q) (t @ q # rest) = t"
  by (induction t) auto

lemma dropWhile_until: "q \<notin> set t \<Longrightarrow> dropWhile (\<lambda>x. x \<noteq> q) (t @ q # rest) = q # rest"
  by (induction t) auto

lemma dropWhile_all: "\<forall>c \<in> set ws. P c \<Longrightarrow> \<not> P q \<Longrightarrow> dropWhile P (ws @ q # rest) = q # rest"
  by (induction ws) auto

lemma matchesPatternAt_imp_match:
  assumes "matchesPatternAt s t"
  shows "matchSuggestionTextAt s = Some t"
proof -
  from assms obtain ws rest where
    s: "s = suggestionTextPattern @ ws @ [quoteChar] @ t @ [quoteChar] @ rest"
    and ws: "\<forall>c \<in> set ws. isWhiteSpace c" and t: "quoteChar \<notin> set t"
    unfolding matchesPatternAt_def by blast
  have a: "startsWith s suggestionTextPattern" by (simp add: s startsWith_def)
  have b: "drop (length suggestionTextPattern) s = ws @ quoteChar # t @ quoteChar # rest"
    by (simp add: s)
  have c: "dropWhile isWhiteSpace (ws @ quoteChar # t @ quoteChar # rest)
             = quoteChar # t @ quoteChar # rest"
    using ws quote_not_space by (rule dropWhile_all)
  show ?thesis
    using t by (simp add: matchSuggestionTextAt_def a b c takeWhile_until dropWhile_until)
qed

lemma match_imp_matchesPatternAt:
  assumes "matchSuggestionTextAt s = Some t"
  shows "matchesPatternAt s t"
proof -
  let ?d = "drop (length suggestionTextPattern) s"
  from assms have a: "startsWith s suggestionTextPattern"
    by (simp add: matchSuggestionTextAt_def split: if_splits)
  then have s: "s = suggestionTextPattern @ ?d"
    by (metis append_take_drop_id startsWith_def)
  from assms a obtain c rest where
    dw: "dropWhile isWhiteSpace ?d = c # rest"
    and c: "c = quoteChar"
    and ne: "dropWhile (\<lambda>x. x \<noteq> quoteChar) rest \<noteq> []"
    and t: "t = takeWhile (\<lambda>x. x \<noteq> quoteChar) rest"
    by (auto simp: matchSuggestionTextAt_def split: if_splits list.splits)
  from ne obtain x rest' where r: "dropWhile (\<lambda>x. x \<noteq> quoteChar) rest = x # rest'"
    by (cases "dropWhile (\<lambda>x. x \<noteq> quoteChar) rest") auto
  have "\<not> (hd (dropWhile (\<lambda>x. x \<noteq> quoteChar) rest) \<noteq> quoteChar)"
    using ne by (rule hd_dropWhile)
  with r have x: "x = quoteChar" by simp
  have "rest = takeWhile (\<lambda>x. x \<noteq> quoteChar) rest @ dropWhile (\<lambda>x. x \<noteq> quoteChar) rest"
    by simp
  with r x t have rest: "rest = t @ quoteChar # rest'" by simp
  have "?d = takeWhile isWhiteSpace ?d @ dropWhile isWhiteSpace ?d" by simp
  with dw c rest have d: "?d = takeWhile isWhiteSpace ?d @ quoteChar # t @ quoteChar # rest'"
    by simp
  have "s = suggestionTextPattern @ takeWhile isWhiteSpace ?d @ [quoteChar] @ t @ [quoteChar] @ rest'"
    using s d by simp
  moreover have "\<forall>c \<in> set (takeWhile isWhiteSpace ?d). isWhiteSpace c"
    by (meson set_takeWhileD)
  moreover have "quoteChar \<notin> set t"
    unfolding t by (auto dest: set_takeWhileD)
  ultimately show ?thesis unfolding matchesPatternAt_def by blast
qed

lemma matchSuggestionText_None_iff:
  "matchSuggestionText content = None \<longleftrightarrow> (\<forall>j. matchSuggestionTextAt (drop j content) = None)"
proof (induction content)
  case Nil
  then show ?case by simp
next
  case (Cons c cs)
  show ?case
  proof
    assume h: "matchSuggestionText (c # cs) = None"
    then have h0: "matchSuggestionTextAt (c # cs) = None" and h1: "matchSuggestionText cs = None"
      by (auto split: option.splits)
    show "\<forall>j. matchSuggestionTextAt (drop j (c # cs)) = None"
    proof
      fix j show "matchSuggestionTextAt (drop j (c # cs)) = None"
        using h0 h1 Cons.IH by (cases j) auto
    qed
  next
    assume h: "\<forall>j. matchSuggestionTextAt (drop j (c # cs)) = None"
    then have "matchSuggestionTextAt (drop 0 (c # cs)) = None" by blast
    moreover have "\<forall>j. matchSuggestionTextAt (drop j cs) = None"
    proof
      fix j from h have "matchSuggestionTextAt (drop (Suc j) (c # cs)) = None" by blast
      then show "matchSuggestionTextAt (drop j cs) = None" by simp
    qed
    ultimately show "matchSuggestionText (c # cs) = None"
      using Cons.IH by simp
  qed
qed

lemma matchSuggestionText_leftmost:
  assumes "matchSuggestionTextAt s = Some t"
    and "\<forall>j < length before. matchSuggestionTextAt (drop j (before @ s)) = None"
  shows "matchSuggestionText (before @ s) = Some t"
  using assms(2)
proof (induction before)
  case Nil
  with assms(1) show ?case by (cases s) auto
next
  case (Cons b bs)
  from Cons.prems have "matchSuggestionTextAt (drop 0 ((b # bs) @ s)) = None" by blast
  then have h0: "matchSuggestionTextAt (b # bs @ s) = None" by simp
  have "\<forall>j < length bs. matchSuggestionTextAt (drop j (bs @ s)) = None"
  proof (intro allI impI)
    fix j assume "j < length bs"
    then have "Suc j < length (b # bs)" by simp
    with Cons.prems have "matchSuggestionTextAt (drop (Suc j) ((b # bs) @ s)) = None" by blast
    then show "matchSuggestionTextAt (drop j (bs @ s)) = None" by simp
  qed
  with Cons.IH have "matchSuggestionText (bs @ s) = Some t" by blast
  with h0 show ?case by simp
qed

lemma containsSuggestionText_iff:
  "containsSuggestionText content \<longleftrightarrow> matchSuggestionText content \<noteq> None"
proof
  assume "containsSuggestionText content"
  then obtain before s t where c: "content = before @ s" and m: "matchesPatternAt s t"
    unfolding containsSuggestionText_def by blast
  have "matchSuggestionTextAt (drop (length before) content) = Some t"
    using c matchesPatternAt_imp_match [OF m] by simp
  then have "\<not> (\<forall>j. matchSuggestionTextAt (drop j content) = None)" by force
  then show "matchSuggestionText content \<noteq> None"
    by (simp add: matchSuggestionText_None_iff)
next
  assume "matchSuggestionText content \<noteq> None"
  then have "\<not> (\<forall>j. matchSuggestionTextAt (drop j content) = None)"
    by (simp add: matchSuggestionText_None_iff)
  then obtain j t where "matchSuggestionTextAt (drop j content) = Some t" by auto
  then have "matchesPatternAt (drop j content) t" by (rule match_imp_matchesPatternAt)
  moreover have "content = take j content @ drop j content" by simp
  ultimately show "containsSuggestionText content"
    unfolding containsSuggestionText_def by blast
qed

lemma getBrewSuggestions_example:
  "fst (getBrewSuggestions (examplePlatform parse answer) b prev sel gid gname emptyWorld)
     = readSuggestion parse answer"
  using getBrewSuggestions_response [OF requestSuggestion_example, of parse answer b prev sel gid gname]
  by (simp add: examplePlatform_def messageContent_def)

lemma lastIndexOf_never:
  assumes "lastIndexOf s p = None" and "p \<noteq> []"
  shows "\<not> startsWith (drop j s) p"
proof (cases "j \<le> length s")
  case True
  with lastIndexFrom_None assms(1) show ?thesis unfolding lastIndexOf_def by blast
next
  case False
  with assms(2) show ?thesis by (auto simp: startsWith_def)
qed

section \<open>Properties of the suggestion response\<close>

text \<open>
  C1 (amended). When the narrative of the parsed response is \<open>narrative @ trailing\<close>,
  where \<open>trailing\<close> begins with the marker \<open>,"suggestedGrindSize":\<close> at its last
  occurrence and ends with a closing brace, the cleaning removes \<open>trailing\<close> and
  returns the narrative with the white space at both ends removed, unless that
  trimmed narrative starts with \<open>{"suggestedGrindSize":\<close>, in which case the fixed
  sentence is returned. Every other property of the parsed response keeps its
  value.
\<close>

theorem getBrewSuggestions_strips_trailing_json:
  assumes "fst (requestSuggestion P currentBrew previousBrews selectedBeanName currentGrinderId
                  currentGrinderName w) = Inr response"
    and "messageContent response = Some content" and "content \<noteq> []"
    and "JSON_parse P content = Some (JObj props)"
    and "map_of props suggestionTextKey = Some (JStr t)"
    and "t = narrative @ trailing"
    and "startsWith trailing embeddedJsonMarker"
    and "endsWith trailing (js ''}'')"
    and "\<forall>j. length narrative < j \<longrightarrow> \<not> startsWith (drop j t) embeddedJsonMarker"
  shows "getBrewSuggestions P currentBrew previousBrews selectedBeanName currentGrinderId
           currentGrinderName w =
         (Inr (JObj (AList.update suggestionTextKey
                 (JStr (if startsWith (trim narrative) onlyJsonMarker
                        then narrativeMissingText else trim narrative)) props)),
          snd (requestSuggestion P currentBrew previousBrews selectedBeanName currentGrinderId
                 currentGrinderName w))
       \<and> (\<forall>k. k \<noteq> suggestionTextKey \<longrightarrow>
             map_of (AList.update suggestionTextKey
                 (JStr (if startsWith (trim narrative) onlyJsonMarker
                        then narrativeMissingText else trim narrative)) props) k
             = map_of props k)"
proof -
  have tr: "trailing \<noteq> []" "\<not> isWhiteSpace (hd trailing)"
    using startsWith_nonempty [OF assms(7)] embeddedJsonMarker_hd by auto
  have "\<not> isWhiteSpace (last trailing)"
    using assms(8) brace_not_space by (simp add: endsWith_singleton)
  with tr have trim_tr: "trim trailing = trailing" by (simp add: trim_id)
  have idx: "lastIndexOf t embeddedJsonMarker = Some (length narrative)"
    unfolding lastIndexOf_def
    by (rule lastIndexFrom_eqI) (use assms(6,7,9) in auto)
  have parts: "drop (length narrative) t = trailing" "take (length narrative) t = narrative"
    using assms(6) by simp_all
  have "cleanParsedResponse (JObj props) =
          Some (JObj (AList.update suggestionTextKey
                   (JStr (if startsWith (trim narrative) onlyJsonMarker
                          then narrativeMissingText else trim narrative)) props))"
    using cleanParsedResponse_strip [OF assms(5) idx] parts trim_tr assms(8) by simp
  then have "readSuggestion (JSON_parse P) (Some content) =
          Inr (JObj (AList.update suggestionTextKey
                   (JStr (if startsWith (trim narrative) onlyJsonMarker
                          then narrativeMissingText else trim narrative)) props))"
    using assms(3,4) by (simp add: readSuggestion_def truthy_def)
  then show ?thesis
    using getBrewSuggestions_response [OF assms(1)] assms(2) by (simp add: update_conv')
qed

text \<open>
  The theorem at the response whose narrative is
  \<open>Grind finer. ,"suggestedGrindSize":"Fine"}\<close>.
\<close>

theorem getBrewSuggestions_strips_trailing_json_witness:
  \<open>fst (getBrewSuggestions
          (examplePlatform (parseOnly (responseText echoedText) (suggestionObject echoedText))
             (Some (responseText echoedText)))
          exampleBrew [] None None None emptyWorld)
     = Inr (suggestionObject (js ''Grind finer.''))\<close>
proof -
  let ?P = "examplePlatform (parseOnly (responseText echoedText) (suggestionObject echoedText))
              (Some (responseText echoedText))"
  let ?props = "[(js ''suggestionText'', JStr echoedText),
           (js ''suggestedGrindSize'', JStr (js ''Fine'')),
           (js ''suggestedWaterTemp'', JNull),
           (js ''suggestedSteepTimeSeconds'', JNum (180::int)),
           (js ''suggestedUseBloom'', JBool False),
           (js ''suggestedBloomTimeSeconds'', JNull)]"
  have h1: "fst (requestSuggestion ?P exampleBrew [] None None None emptyWorld)
              = Inr [Some (responseText echoedText)]"
    by (rule requestSuggestion_example)
  have h2: "messageContent [Some (responseText echoedText)] = Some (responseText echoedText)"
    by (simp add: messageContent_def)
  have h3: "responseText echoedText \<noteq> []"
    by (simp add: responseText_def js_def)
  have h4: "JSON_parse ?P (responseText echoedText) = Some (JObj ?props)"
    by (simp add: examplePlatform_def parseOnly_def suggestionObject_def)
  have h5: "map_of ?props suggestionTextKey = Some (JStr echoedText)"
    by (simp add: suggestionTextKey_def)
  have h6: \<open>echoedText = js ''Grind finer. '' @ js '',"suggestedGrindSize":"Fine"}''\<close>
    by (simp add: echoedText_def js_def)
  have h7: \<open>startsWith (js '',"suggestedGrindSize":"Fine"}'') embeddedJsonMarker\<close>
    by code_simp
  have h8: \<open>endsWith (js '',"suggestedGrindSize":"Fine"}'') (js ''}'')\<close>
    by code_simp
  have idx: "lastIndexOf echoedText embeddedJsonMarker = Some 13"
    by code_simp
  have ne: "embeddedJsonMarker \<noteq> []"
    by (simp add: embeddedJsonMarker_def js_def)
  have h9: "\<forall>j. length (js ''Grind finer. '') < j \<longrightarrow>
               \<not> startsWith (drop j echoedText) embeddedJsonMarker"
    using lastIndexOf_later [OF idx ne] by (simp add: js_def)
  have "fst (getBrewSuggestions ?P exampleBrew [] None None None emptyWorld)
          = Inr (JObj (AList.update suggestionTextKey
                 (JStr (if startsWith (trim (js ''Grind finer. '')) onlyJsonMarker
                        then narrativeMissingText else trim (js ''Grind finer. ''))) ?props))"
    using getBrewSuggestions_strips_trailing_json [OF h1 h2 h3 h4 h5 h6 h7 h8 h9] by simp
  also have "\<dots> = Inr (suggestionObject (js ''Grind finer.''))"
    by code_simp
  finally show ?thesis .
qed

text \<open>
  C1 as stated fails. For the response above the text before the trailing segment
  is \<open>Grind finer.\<close> followed by a space, and the result is \<open>Grind finer.\<close>
  without it. For a narrative that repeats the parameter object, the text before
  the last marker is \<open>{"suggestedGrindSize":"Fine"\<close>, and the result is the fixed
  sentence.
\<close>

theorem cleanup_trims_narrative_counterexample:
  \<open>lastIndexOf echoedText embeddedJsonMarker = Some 13 \<and>
   take 13 echoedText = js ''Grind finer. '' \<and>
   endsWith (drop 13 echoedText) (js ''}'') \<and>
   fst (getBrewSuggestions
          (examplePlatform (parseOnly (responseText echoedText) (suggestionObject echoedText))
             (Some (responseText echoedText)))
          exampleBrew [] None None None emptyWorld)
     = Inr (suggestionObject (js ''Grind finer.'')) \<and>
   suggestionObject (js ''Grind finer.'') \<noteq> suggestionObject (js ''Grind finer. '') \<and>
   lastIndexOf duplicateJsonText embeddedJsonMarker = Some 28 \<and>
   take 28 duplicateJsonText = js ''{"suggestedGrindSize":"Fine"'' \<and>
   endsWith (drop 28 duplicateJsonText) (js ''}'') \<and>
   fst (getBrewSuggestions
          (examplePlatform
             (parseOnly (responseText duplicateJsonText) (suggestionObject duplicateJsonText))
             (Some (responseText duplicateJsonText)))
          exampleBrew [] None None None emptyWorld)
     = Inr (suggestionObject narrativeMissingText) \<and>
   suggestionObject narrativeMissingText
     \<noteq> suggestionObject (js ''{"suggestedGrindSize":"Fine"'')\<close>
  unfolding getBrewSuggestions_example by code_simp

text \<open>
  C2 (amended). When the response is not valid JSON and \<open>t\<close> is the text between
  the quotes of its leftmost match of \<open>"suggestionText":\s*"([^"]*)"\<close>, then
  for a non-empty \<open>t\<close> the result has \<open>t\<close> as narrative, null for the grind
  size, the water temperature, the steep time and the bloom time, and false for the
  bloom flag; for an empty \<open>t\<close> \<open>getBrewSuggestions\<close> throws.
\<close>

theorem getBrewSuggestions_fallback_text:
  assumes "fst (requestSuggestion P currentBrew previousBrews selectedBeanName currentGrinderId
                  currentGrinderName w) = Inr response"
    and "messageContent response = Some content"
    and "JSON_parse P content = None"
    and "content = before @ s"
    and "matchesPatternAt s t"
    and "\<forall>j < length before. \<forall>t'. \<not> matchesPatternAt (drop j content) t'"
  shows "getBrewSuggestions P currentBrew previousBrews selectedBeanName currentGrinderId
           currentGrinderName w =
         (if t = [] then Inl ParseOrExtractFailed
          else Inr (JObj [(js ''suggestionText'', JStr t),
                          (js ''suggestedGrindSize'', JNull),
                          (js ''suggestedWaterTemp'', JNull),
                          (js ''suggestedSteepTimeSeconds'', JNull),
                          (js ''suggestedUseBloom'', JBool False),
                          (js ''suggestedBloomTimeSeconds'', JNull)]),
          snd (requestSuggestion P currentBrew previousBrews selectedBeanName currentGrinderId
                 currentGrinderName w))"
proof -
  have m: "matchSuggestionTextAt s = Some t"
    using assms(5) by (rule matchesPatternAt_imp_match)
  have "\<forall>j < length before. matchSuggestionTextAt (drop j (before @ s)) = None"
  proof (intro allI impI)
    fix j assume j: "j < length before"
    show "matchSuggestionTextAt (drop j (before @ s)) = None"
    proof (cases "matchSuggestionTextAt (drop j (before @ s))")
      case None
      then show ?thesis .
    next
      case (Some t')
      then have "matchesPatternAt (drop j (before @ s)) t'" by (rule match_imp_matchesPatternAt)
      with assms(4,6) j show ?thesis by blast
    qed
  qed
  with m have found: "matchSuggestionText content = Some t"
    unfolding assms(4) by (rule matchSuggestionText_leftmost)
  have "content \<noteq> []"
    using found by (cases content) (auto simp: matchSuggestionTextAt_def startsWith_def
        suggestionTextPattern_def js_def)
  then have "readSuggestion (JSON_parse P) (Some content) =
               (if t = [] then Inl ParseOrExtractFailed else Inr (fallbackResponse t))"
    using assms(3) found by (simp add: readSuggestion_def truthy_def)
  then show ?thesis
    using getBrewSuggestions_response [OF assms(1)] assms(2)
    by (simp add: fallbackResponse_def replaceNewlines_id)
qed

text \<open>The theorem at a response that was cut off before its closing brace.\<close>

theorem getBrewSuggestions_fallback_text_witness:
  "fst (getBrewSuggestions (examplePlatform rejectAll (Some truncatedContent))
          exampleBrew [] None None None emptyWorld)
     = Inr (JObj [(js ''suggestionText'', JStr (js ''Grind finer'')),
                  (js ''suggestedGrindSize'', JNull),
                  (js ''suggestedWaterTemp'', JNull),
                  (js ''suggestedSteepTimeSeconds'', JNull),
                  (js ''suggestedUseBloom'', JBool False),
                  (js ''suggestedBloomTimeSeconds'', JNull)])"
proof -
  let ?P = "examplePlatform rejectAll (Some truncatedContent)"
  have h1: "fst (requestSuggestion ?P exampleBrew [] None None None emptyWorld)
              = Inr [Some truncatedContent]"
    by (rule requestSuggestion_example)
  have h2: "messageContent [Some truncatedContent] = Some truncatedContent"
    by (simp add: messageContent_def)
  have h3: "JSON_parse ?P truncatedContent = None"
    by (simp add: examplePlatform_def rejectAll_def)
  have h4: "truncatedContent = js ''{'' @ drop 1 truncatedContent"
    by (simp add: truncatedContent_def js_def)
  have "matchSuggestionTextAt (drop 1 truncatedContent) = Some (js ''Grind finer'')"
    by code_simp
  then have h5: "matchesPatternAt (drop 1 truncatedContent) (js ''Grind finer'')"
    by (rule match_imp_matchesPatternAt)
  have z: "matchSuggestionTextAt truncatedContent = None"
    by code_simp
  have h6: "\<forall>j < length (js ''{''). \<forall>t'. \<not> matchesPatternAt (drop j truncatedContent) t'"
    using z matchesPatternAt_imp_match by (fastforce simp: js_def)
  have h7: "js ''Grind finer'' \<noteq> []"
    by (simp add: js_def)
  show ?thesis
    using getBrewSuggestions_fallback_text [OF h1 h2 h3 h4 h5 h6] h7 by simp
qed

text \<open>
  C2 as stated fails: a response that is not valid JSON and matches the expression
  with nothing between the quotes makes \<open>getBrewSuggestions\<close> throw.
\<close>

theorem empty_fallback_text_counterexample:
  "rejectAll emptyTextContent = None \<and>
   matchesPatternAt (drop 1 emptyTextContent) [] \<and>
   matchSuggestionText emptyTextContent = Some [] \<and>
   fst (getBrewSuggestions (examplePlatform rejectAll (Some emptyTextContent))
          exampleBrew [] None None None emptyWorld)
     = Inl ParseOrExtractFailed"
proof -
  have "matchSuggestionTextAt (drop 1 emptyTextContent) = Some []"
    by code_simp
  then have "matchesPatternAt (drop 1 emptyTextContent) []"
    by (rule match_imp_matchesPatternAt)
  moreover have "rejectAll emptyTextContent = None \<and>
     matchSuggestionText emptyTextContent = Some [] \<and>
     readSuggestion rejectAll (Some emptyTextContent) = Inl ParseOrExtractFailed"
    by code_simp
  ultimately show ?thesis
    by (simp add: getBrewSuggestions_example)
qed

text \<open>
  C3. When the response is not valid JSON and contains no match of the fallback
  expression, \<open>getBrewSuggestions\<close> throws: it returns no result at all.
\<close>

theorem getBrewSuggestions_unreadable_response:
  assumes "fst (requestSuggestion P currentBrew previousBrews selectedBeanName currentGrinderId
                  currentGrinderName w) = Inr response"
    and "messageContent response = Some content"
    and "JSON_parse P content = None"
    and "\<not> containsSuggestionText content"
  shows "getBrewSuggestions P currentBrew previousBrews selectedBeanName currentGrinderId
           currentGrinderName w =
         (Inl (if content = [] then NoValidResponse else ParseOrExtractFailed),
          snd (requestSuggestion P currentBrew previousBrews selectedBeanName currentGrinderId
                 currentGrinderName w))"
proof -
  have "matchSuggestionText content = None"
    using assms(4) by (simp add: containsSuggestionText_iff)
  then have "readSuggestion (JSON_parse P) (Some content) =
               Inl (if content = [] then NoValidResponse else ParseOrExtractFailed)"
    using assms(3) by (simp add: readSuggestion_def truthy_def)
  then show ?thesis
    using getBrewSuggestions_response [OF assms(1)] assms(2) by simp
qed

text \<open>The theorem at a response in plain prose.\<close>

theorem getBrewSuggestions_unreadable_response_witness:
  "fst (getBrewSuggestions (examplePlatform rejectAll (Some refusalContent))
          exampleBrew [] None None None emptyWorld)
     = Inl ParseOrExtractFailed"
proof -
  let ?P = "examplePlatform rejectAll (Some refusalContent)"
  have h1: "fst (requestSuggestion ?P exampleBrew [] None None None emptyWorld)
              = Inr [Some refusalContent]"
    by (rule requestSuggestion_example)
  have h2: "messageContent [Some refusalContent] = Some refusalContent"
    by (simp add: messageContent_def)
  have h3: "JSON_parse ?P refusalContent = None"
    by (simp add: examplePlatform_def rejectAll_def)
  have "matchSuggestionText refusalContent = None"
    by code_simp
  then have h4: "\<not> containsSuggestionText refusalContent"
    by (simp add: containsSuggestionText_iff)
  have h5: "refusalContent \<noteq> []"
    by (simp add: refusalContent_def js_def)
  show ?thesis
    using getBrewSuggestions_unreadable_response [OF h1 h2 h3 h4] h5 by simp
qed

text \<open>
  C4 (amended). A response that parses to an object whose narrative is a string
  is returned as parsed, every property unchanged, when no occurrence of the marker
  \<open>,"suggestedGrindSize":\<close> in the narrative is followed by text that, trimmed,
  ends with a closing brace, and the narrative, trimmed, does not start with
  \<open>{"suggestedGrindSize":\<close>.
\<close>

theorem getBrewSuggestions_keeps_clean_response:
  assumes "fst (requestSuggestion P currentBrew previousBrews selectedBeanName currentGrinderId
                  currentGrinderName w) = Inr response"
    and "messageContent response = Some content" and "content \<noteq> []"
    and "JSON_parse P content = Some (JObj props)"
    and "map_of props suggestionTextKey = Some (JStr t)"
    and "\<forall>j. startsWith (drop j t) embeddedJsonMarker \<longrightarrow>
              \<not> endsWith (trim (drop j t)) (js ''}'')"
    and "\<not> startsWith (trim t) onlyJsonMarker"
  shows "getBrewSuggestions P currentBrew previousBrews selectedBeanName currentGrinderId
           currentGrinderName w =
         (Inr (JObj props),
          snd (requestSuggestion P currentBrew previousBrews selectedBeanName currentGrinderId
                 currentGrinderName w))"
proof -
  have "lastIndexOf t embeddedJsonMarker = None \<or>
         (\<exists>i. lastIndexOf t embeddedJsonMarker = Some i \<and> \<not> endsWith (trim (drop i t)) (js ''}''))"
  proof (cases "lastIndexOf t embeddedJsonMarker")
    case None
    then show ?thesis by simp
  next
    case (Some i)
    then have "startsWith (drop i t) embeddedJsonMarker"
      using lastIndexFrom_Some unfolding lastIndexOf_def by blast
    with assms(6) Some show ?thesis by simp
  qed
  from cleanParsedResponse_keep [OF assms(5) this] assms(7)
  have "cleanParsedResponse (JObj props) = Some (JObj props)" by simp
  then have "readSuggestion (JSON_parse P) (Some content) = Inr (JObj props)"
    using assms(3,4) by (simp add: readSuggestion_def truthy_def)
  then show ?thesis
    using getBrewSuggestions_response [OF assms(1)] assms(2) by simp
qed

text \<open>The theorem at a response with the narrative \<open>Grind a little finer.\<close>\<close>

theorem getBrewSuggestions_keeps_clean_response_witness:
  "fst (getBrewSuggestions
          (examplePlatform (parseOnly (responseText cleanText) (suggestionObject cleanText))
             (Some (responseText cleanText)))
          exampleBrew [] None None None emptyWorld)
     = Inr (suggestionObject cleanText)"
proof -
  let ?P = "examplePlatform (parseOnly (responseText cleanText) (suggestionObject cleanText))
              (Some (responseText cleanText))"
  let ?props = "[(js ''suggestionText'', JStr cleanText),
           (js ''suggestedGrindSize'', JStr (js ''Fine'')),
           (js ''suggestedWaterTemp'', JNull),
           (js ''suggestedSteepTimeSeconds'', JNum (180::int)),
           (js ''suggestedUseBloom'', JBool False),
           (js ''suggestedBloomTimeSeconds'', JNull)]"
  have h1: "fst (requestSuggestion ?P exampleBrew [] None None None emptyWorld)
              = Inr [Some (responseText cleanText)]"
    by (rule requestSuggestion_example)
  have h2: "messageContent [Some (responseText cleanText)] = Some (responseText cleanText)"
    by (simp add: messageContent_def)
  have h3: "responseText cleanText \<noteq> []"
    by (simp add: responseText_def js_def)
  have h4: "JSON_parse ?P (responseText cleanText) = Some (JObj ?props)"
    by (simp add: examplePlatform_def parseOnly_def suggestionObject_def)
  have h5: "map_of ?props suggestionTextKey = Some (JStr cleanText)"
    by (simp add: suggestionTextKey_def)
  have none: "lastIndexOf cleanText embeddedJsonMarker = None"
    by code_simp
  have ne: "embeddedJsonMarker \<noteq> []"
    by (simp add: embeddedJsonMarker_def js_def)
  have h6: "\<forall>j. startsWith (drop j cleanText) embeddedJsonMarker \<longrightarrow>
              \<not> endsWith (trim (drop j cleanText)) (js ''}'')"
    using lastIndexOf_never [OF none ne] by simp
  have h7: "\<not> startsWith (trim cleanText) onlyJsonMarker"
    by code_simp
  show ?thesis
    using getBrewSuggestions_keeps_clean_response [OF h1 h2 h3 h4 h5 h6 h7]
    by (simp add: suggestionObject_def)
qed

text \<open>
  C4 as stated fails. A narrative that is a space followed by
  \<open>{"suggestedGrindSize":"Fine"}\<close> does not contain the marker and does not start
  with \<open>{"suggestedGrindSize":\<close>, and it is replaced by the fixed sentence. A
  narrative with the parameters appended and a space after the closing brace does
  not end with a closing brace, and the parameters are removed from it.
\<close>

theorem leading_space_json_counterexample:
  "\<not> includesStr onlyJsonText embeddedJsonMarker \<and>
   \<not> startsWith onlyJsonText onlyJsonMarker \<and>
   fst (getBrewSuggestions
          (examplePlatform (parseOnly (responseText onlyJsonText) (suggestionObject onlyJsonText))
             (Some (responseText onlyJsonText)))
          exampleBrew [] None None None emptyWorld)
     = Inr (suggestionObject narrativeMissingText) \<and>
   suggestionObject narrativeMissingText \<noteq> suggestionObject onlyJsonText \<and>
   \<not> endsWith trailingSpaceText (js ''}'') \<and>
   \<not> startsWith trailingSpaceText onlyJsonMarker \<and>
   fst (getBrewSuggestions
          (examplePlatform
             (parseOnly (responseText trailingSpaceText) (suggestionObject trailingSpaceText))
             (Some (responseText trailingSpaceText)))
          exampleBrew [] None None None emptyWorld)
     = Inr (suggestionObject (js ''Grind finer.'')) \<and>
   suggestionObject (js ''Grind finer.'') \<noteq> suggestionObject trailingSpaceText"
  unfolding getBrewSuggestions_example by code_simp

section \<open>Properties of the call wrapper\<close>

lemma trim_Nil [simp]: "trim [] = []"
  by (simp add: trim_def trimStart_def trimEnd_def)

lemma getApiKeyInternal_none:
  assumes "expoApiKey = None \<or> expoApiKey = Some [] \<or> expoApiKey = Some apiKeyPlaceholder"
    and "items w API_KEY_STORAGE_KEY = None \<or> items w API_KEY_STORAGE_KEY = Some []"
  shows "getApiKeyInternal expoApiKey w =
           (None, w\<lparr>events := events w @ [GetItem API_KEY_STORAGE_KEY]\<rparr>)"
  using assms by (auto simp: getApiKeyInternal_def getItem_def)

text \<open>
  C8. When neither a non-empty, non-placeholder environment value nor a
  non-empty stored value exists, \<open>makeOpenAICall\<close> fails with the missing-key
  error and the world has only seen the read of the stored key, whatever the call
  function would have done: the call function is not run. In general the call
  function is run only with a client built from a usable credential.
\<close>

theorem makeOpenAICall_requires_credential:
  fixes callFunction :: "'c \<Rightarrow> world \<Rightarrow> (error + 'r) \<times> world"
  shows "((expoApiKey = None \<or> expoApiKey = Some [] \<or> expoApiKey = Some apiKeyPlaceholder) \<and>
          (items w API_KEY_STORAGE_KEY = None \<or> items w API_KEY_STORAGE_KEY = Some [])
          \<longrightarrow> makeOpenAICall expoApiKey newClient callFunction w =
                (Inl ApiKeyNotFound, w\<lparr>events := events w @ [GetItem API_KEY_STORAGE_KEY]\<rparr>))
       \<and> (makeOpenAICall expoApiKey newClient callFunction w =
             (Inl ApiKeyNotFound, snd (getApiKeyInternal expoApiKey w))
          \<or> makeOpenAICall expoApiKey newClient callFunction w =
             (Inl ClientInitFailed, snd (getApiKeyInternal expoApiKey w))
          \<or> (\<exists>apiKey client.
               (usableEnvKey expoApiKey \<or> usableStoredKey w) \<and>
               fst (getApiKeyInternal expoApiKey w) = Some apiKey \<and>
               newClient apiKey = Some client \<and>
               makeOpenAICall expoApiKey newClient callFunction w =
                 callFunction client (snd (getApiKeyInternal expoApiKey w))))"
proof (intro conjI impI)
  assume h: "(expoApiKey = None \<or> expoApiKey = Some [] \<or> expoApiKey = Some apiKeyPlaceholder) \<and>
          (items w API_KEY_STORAGE_KEY = None \<or> items w API_KEY_STORAGE_KEY = Some [])"
  then show "makeOpenAICall expoApiKey newClient callFunction w =
                (Inl ApiKeyNotFound, w\<lparr>events := events w @ [GetItem API_KEY_STORAGE_KEY]\<rparr>)"
    by (simp add: makeOpenAICall_def getApiKeyInternal_none)
next
  obtain r w1 where g: "getApiKeyInternal expoApiKey w = (r, w1)"
    by (cases "getApiKeyInternal expoApiKey w")
  show "makeOpenAICall expoApiKey newClient callFunction w =
             (Inl ApiKeyNotFound, snd (getApiKeyInternal expoApiKey w))
          \<or> makeOpenAICall expoApiKey newClient callFunction w =
             (Inl ClientInitFailed, snd (getApiKeyInternal expoApiKey w))
          \<or> (\<exists>apiKey client.
               (usableEnvKey expoApiKey \<or> usableStoredKey w) \<and>
               fst (getApiKeyInternal expoApiKey w) = Some apiKey \<and>
               newClient apiKey = Some client \<and>
               makeOpenAICall expoApiKey newClient callFunction w =
                 callFunction client (snd (getApiKeyInternal expoApiKey w)))"
  proof (cases r)
    case None
    with g show ?thesis by (simp add: makeOpenAICall_def)
  next
    case (Some apiKey)
    have usable: "usableEnvKey expoApiKey \<or> usableStoredKey w"
      using g Some
      by (auto simp: getApiKeyInternal_def getItem_def usableEnvKey_def usableStoredKey_def
               split: if_splits option.splits)
    show ?thesis
    proof (cases "apiKey = []")
      case True
      with g Some show ?thesis by (simp add: makeOpenAICall_def)
    next
      case False
      show ?thesis
      proof (cases "newClient apiKey")
        case None
        with g Some False show ?thesis by (simp add: makeOpenAICall_def)
      next
        case (Some client)
        with g \<open>r = Some apiKey\<close> False usable show ?thesis
          by (simp add: makeOpenAICall_def)
      qed
    qed
  qed
qed

theorem makeOpenAICall_requires_credential_witness:
  "makeOpenAICall (Some apiKeyPlaceholder) Some
     (\<lambda>client w. (Inr client, alert client client w))
     \<lparr>items = Map.empty, events = []\<rparr>
   = (Inl ApiKeyNotFound :: error + jsstring,
      \<lparr>items = Map.empty, events = [GetItem API_KEY_STORAGE_KEY]\<rparr>)"
  using makeOpenAICall_requires_credential
          [of "Some apiKeyPlaceholder" "\<lparr>items = Map.empty, events = []\<rparr>" Some
              "\<lambda>client w. (Inr client, alert client client w)"]
  by simp

section \<open>Properties: image analysis\<close>








section \<open>JSON text: reading back what was written\<close>





lemma natToString_zero: "natToString 0 = [0x30]"
  by simp




















lemma valueEnd_simps [simp]:
  "valueEnd []" "valueEnd (0x2C # r)" "valueEnd (0x5D # r)" "valueEnd (0x7D # r)"
  by (simp_all add: valueEnd_def)

























section \<open>Properties: saving and reloading a brew\<close>

lemma set_newestFirst [simp]: "set (newestFirst brews) = set brews"
  by (simp add: newestFirst_def)

lemma length_newestFirst [simp]: "length (newestFirst brews) = length brews"
  by (simp add: newestFirst_def)




text \<open>
  C10. When the bean name, the grind size or the water temperature of the form is
  empty, \<open>handleSaveBrew\<close> (on both screens) only shows the validation alert: the
  form is unchanged and the store is neither read nor written, so the stored brews
  are unchanged.
\<close>

theorem handleSaveBrew_rejects_missing_info:
  assumes "formBeanName form = None \<or> formBeanName form = Some [] \<or>
           formGrindSize form = [] \<or> formWaterTemp form = []"
  shows "handleSaveBrew P idNow timestampNow form w =
           (form,
            w\<lparr>events := events w @
               [Alert (js ''Missing Info'')
                  (js ''Please fill in Grind Size, and Water Temp (Bean should be pre-selected).'')]\<rparr>)
       \<and> handleSaveBrewHome P idNow timestampNow (form, allBeanNames) w =
           ((form, allBeanNames),
            w\<lparr>events := events w @
               [Alert (js ''Missing Info'')
                  (js ''Please fill in Bean Name, Grind Size, and Water Temp.'')]\<rparr>)
       \<and> items (snd (handleSaveBrew P idNow timestampNow form w)) = items w
       \<and> items (snd (handleSaveBrewHome P idNow timestampNow (form, allBeanNames) w)) = items w"
proof -
  have "missingInfo form"
    using assms by (auto simp: missingInfo_def truthy_def)
  then show ?thesis
    by (simp add: handleSaveBrew_def handleSaveBrewHome_def alert_def)
qed

text \<open>The theorem at a form without grind size.\<close>

theorem handleSaveBrew_rejects_missing_info_witness:
  "items (snd (handleSaveBrew (examplePlatform rejectAll None) 1700000000000 1700000000000
                 (exampleForm\<lparr>formGrindSize := []\<rparr>) emptyWorld)) = Map.empty
   \<and> events (snd (handleSaveBrew (examplePlatform rejectAll None) 1700000000000 1700000000000
                 (exampleForm\<lparr>formGrindSize := []\<rparr>) emptyWorld))
       = [Alert (js ''Missing Info'')
            (js ''Please fill in Grind Size, and Water Temp (Bean should be pre-selected).'')]"
  using handleSaveBrew_rejects_missing_info
          [of "exampleForm\<lparr>formGrindSize := []\<rparr>" "examplePlatform rejectAll None"
              1700000000000 1700000000000 emptyWorld "[]"]
  by (simp add: exampleForm_def emptyWorld_def)





section \<open>Properties: removing equipment\<close>

lemma storage_keys_distinct:
  "BREW_DEVICES_STORAGE_KEY \<noteq> DEFAULT_BREW_DEVICE_KEY"
  "BREW_DEVICES_STORAGE_KEY \<noteq> DEFAULT_GRINDER_KEY"
  "GRINDERS_STORAGE_KEY \<noteq> DEFAULT_BREW_DEVICE_KEY"
  "GRINDERS_STORAGE_KEY \<noteq> DEFAULT_GRINDER_KEY"
  "DEFAULT_BREW_DEVICE_KEY \<noteq> DEFAULT_GRINDER_KEY"
  "BREW_DEVICES_STORAGE_KEY \<noteq> GRINDERS_STORAGE_KEY"
  by (simp_all add: BREW_DEVICES_STORAGE_KEY_def GRINDERS_STORAGE_KEY_def
        DEFAULT_BREW_DEVICE_KEY_def DEFAULT_GRINDER_KEY_def js_def)

lemma getApiKeyInternal_items: "items (snd (getApiKeyInternal k w)) = items w"
  by (simp add: getApiKeyInternal_def getItem_def split: option.splits)

lemma loadEquipmentList_other:
  "k' \<noteq> k \<Longrightarrow> items (snd (loadEquipmentList P k defaults w)) k' = items w k'"
  by (simp add: loadEquipmentList_def getItem_def setItem_def split: option.splits)

lemma loadEquipmentList_wf:
  assumes "\<forall>text. items w k = Some text \<longrightarrow> parseDevices P text \<noteq> None"
  shows "fst (loadEquipmentList P k defaults w) \<noteq> None"
  using assms by (auto simp: loadEquipmentList_def getItem_def split: option.splits)

lemma loadData_pointers:
  assumes "\<forall>text. items w BREW_DEVICES_STORAGE_KEY = Some text \<longrightarrow> parseDevices P text \<noteq> None"
    and "\<forall>text. items w GRINDERS_STORAGE_KEY = Some text \<longrightarrow> parseDevices P text \<noteq> None"
    and "loadData P initialSettings w = (st, w1)"
  shows "defaultBrewDevice st = orElse (items w DEFAULT_BREW_DEVICE_KEY) []"
    and "defaultGrinder st = orElse (items w DEFAULT_GRINDER_KEY) []"
    and "items w1 DEFAULT_BREW_DEVICE_KEY = items w DEFAULT_BREW_DEVICE_KEY"
    and "items w1 DEFAULT_GRINDER_KEY = items w DEFAULT_GRINDER_KEY"
proof -
  obtain k0 w0 where a: "getApiKeyInternal (EXPO_PUBLIC_OPENAI_API_KEY P) w = (k0, w0)"
    by (cases "getApiKeyInternal (EXPO_PUBLIC_OPENAI_API_KEY P) w")
  have i0: "items w0 = items w"
    using getApiKeyInternal_items [of "EXPO_PUBLIC_OPENAI_API_KEY P" w] a by simp
  obtain d wd where b: "loadEquipmentList P BREW_DEVICES_STORAGE_KEY defaultDevices w0 = (d, wd)"
    by (cases "loadEquipmentList P BREW_DEVICES_STORAGE_KEY defaultDevices w0")
  have "d \<noteq> None"
    using loadEquipmentList_wf [of w0 BREW_DEVICES_STORAGE_KEY P defaultDevices] assms(1) i0 b
    by simp
  then obtain devices where d: "d = Some devices" by auto
  have id: "\<And>k'. k' \<noteq> BREW_DEVICES_STORAGE_KEY \<Longrightarrow> items wd k' = items w k'"
    using loadEquipmentList_other [of _ BREW_DEVICES_STORAGE_KEY P defaultDevices w0] b i0
    by simp
  obtain g wg where c: "loadEquipmentList P GRINDERS_STORAGE_KEY defaultGrinders wd = (g, wg)"
    by (cases "loadEquipmentList P GRINDERS_STORAGE_KEY defaultGrinders wd")
  have "items wd GRINDERS_STORAGE_KEY = items w GRINDERS_STORAGE_KEY"
    using id [of GRINDERS_STORAGE_KEY] storage_keys_distinct by simp
  then have "g \<noteq> None"
    using loadEquipmentList_wf [of wd GRINDERS_STORAGE_KEY P defaultGrinders] assms(2) c
    by simp
  then obtain grinderList where g: "g = Some grinderList" by auto
  have ig: "\<And>k'. k' \<noteq> GRINDERS_STORAGE_KEY \<Longrightarrow> items wg k' = items wd k'"
    using loadEquipmentList_other [of _ GRINDERS_STORAGE_KEY P defaultGrinders wd] c
    by simp
  have p1: "items wg DEFAULT_BREW_DEVICE_KEY = items w DEFAULT_BREW_DEVICE_KEY"
    using ig [of DEFAULT_BREW_DEVICE_KEY] id [of DEFAULT_BREW_DEVICE_KEY] storage_keys_distinct
    by simp
  have p2: "items wg DEFAULT_GRINDER_KEY = items w DEFAULT_GRINDER_KEY"
    using ig [of DEFAULT_GRINDER_KEY] id [of DEFAULT_GRINDER_KEY] storage_keys_distinct
    by simp
  have r: "loadData P initialSettings w =
             (initialSettings\<lparr>brewDevices := devices, grinders := grinderList,
                defaultBrewDevice := orElse (items wg DEFAULT_BREW_DEVICE_KEY) [],
                defaultGrinder := orElse (items wg DEFAULT_GRINDER_KEY) []\<rparr>,
              wg\<lparr>events := events wg @ [GetItem DEFAULT_BREW_DEVICE_KEY, GetItem DEFAULT_GRINDER_KEY]\<rparr>)"
    using a b c d g
    by (auto simp: loadData_def getItem_def truthy_def orElse_def initialSettings_def
          split: option.splits)
  from r assms(3) p1 p2
  show "defaultBrewDevice st = orElse (items w DEFAULT_BREW_DEVICE_KEY) []"
    and "defaultGrinder st = orElse (items w DEFAULT_GRINDER_KEY) []"
    and "items w1 DEFAULT_BREW_DEVICE_KEY = items w DEFAULT_BREW_DEVICE_KEY"
    and "items w1 DEFAULT_GRINDER_KEY = items w DEFAULT_GRINDER_KEY"
    by auto
qed

text \<open>
  Making an equipment of the list the default stores an id that refers to the list.
\<close>

lemma setAsDefaultBrewDevice_valid:
  assumes "i \<in> deviceId ` set (brewDevices st)"
    and "setAsDefaultBrewDevice i st w = (st', w')"
  shows "items w' DEFAULT_BREW_DEVICE_KEY = Some i \<and> defaultBrewDevice st' = i
       \<and> i \<in> deviceId ` set (brewDevices st')"
  using assms by (auto simp: setAsDefaultBrewDevice_def setItem_def alert_def)

lemma setAsDefaultGrinder_valid:
  assumes "i \<in> deviceId ` set (grinders st)"
    and "setAsDefaultGrinder i st w = (st', w')"
  shows "items w' DEFAULT_GRINDER_KEY = Some i \<and> defaultGrinder st' = i
       \<and> i \<in> deviceId ` set (grinders st')"
  using assms by (auto simp: setAsDefaultGrinder_def setItem_def alert_def)

text \<open>
  Setting a default leaves the default selection of the screen and the stored pointer
  equal.
\<close>

lemma setAsDefaultBrewDevice_sync:
  assumes "setAsDefaultBrewDevice i st w = (st', w')"
  shows "defaultBrewDevice st' = orElse (items w' DEFAULT_BREW_DEVICE_KEY) []"
  using assms by (auto simp: setAsDefaultBrewDevice_def setItem_def alert_def orElse_def)

lemma setAsDefaultGrinder_sync:
  assumes "setAsDefaultGrinder i st w = (st', w')"
  shows "defaultGrinder st' = orElse (items w' DEFAULT_GRINDER_KEY) []"
  using assms by (auto simp: setAsDefaultGrinder_def setItem_def alert_def orElse_def)

text \<open>
  C5. When the default selections of the settings screen mirror the stored default
  pointers (as after a load that completes and after setting a default), removing
  the brew device whose id is the stored default clears the stored default, and
  likewise for grinders. A removal drops the records of that id and stores the
  encoding of the remaining list; a stored default that referred to an equipment of
  the list before the removal refers to one of the remaining list afterwards, when it
  is still present; and the selections still mirror the stored pointers.
\<close>

theorem removing_default_equipment_clears_pointer:
  assumes "defaultBrewDevice st = orElse (items w DEFAULT_BREW_DEVICE_KEY) []"
    and "defaultGrinder st = orElse (items w DEFAULT_GRINDER_KEY) []"
    and "handleRemoveBrewDevice P i st w = (stD, wD)"
    and "handleRemoveGrinder P i st w = (stG, wG)"
  shows "(items w DEFAULT_BREW_DEVICE_KEY = Some i \<longrightarrow> items wD DEFAULT_BREW_DEVICE_KEY = None)
       \<and> (items w DEFAULT_GRINDER_KEY = Some i \<longrightarrow> items wG DEFAULT_GRINDER_KEY = None)
       \<and> brewDevices stD = filter (\<lambda>device. deviceId device \<noteq> i) (brewDevices st)
       \<and> grinders stG = filter (\<lambda>grinder. deviceId grinder \<noteq> i) (grinders st)
       \<and> items wD BREW_DEVICES_STORAGE_KEY = Some (stringifyDevices P (brewDevices stD))
       \<and> items wG GRINDERS_STORAGE_KEY = Some (stringifyDevices P (grinders stG))
       \<and> ((\<forall>p. items w DEFAULT_BREW_DEVICE_KEY = Some p \<longrightarrow> p \<in> deviceId ` set (brewDevices st))
            \<longrightarrow> (\<forall>p. items wD DEFAULT_BREW_DEVICE_KEY = Some p \<longrightarrow>
                       p \<in> deviceId ` set (brewDevices stD)))
       \<and> ((\<forall>p. items w DEFAULT_GRINDER_KEY = Some p \<longrightarrow> p \<in> deviceId ` set (grinders st))
            \<longrightarrow> (\<forall>p. items wG DEFAULT_GRINDER_KEY = Some p \<longrightarrow>
                       p \<in> deviceId ` set (grinders stG)))
       \<and> defaultBrewDevice stD = orElse (items wD DEFAULT_BREW_DEVICE_KEY) []
       \<and> defaultGrinder stD = orElse (items wD DEFAULT_GRINDER_KEY) []
       \<and> defaultBrewDevice stG = orElse (items wG DEFAULT_BREW_DEVICE_KEY) []
       \<and> defaultGrinder stG = orElse (items wG DEFAULT_GRINDER_KEY) []"
proof -
  have dD: "stD = (if defaultBrewDevice st = i
                   then st\<lparr>brewDevices := filter (\<lambda>device. deviceId device \<noteq> i) (brewDevices st),
                           defaultBrewDevice := []\<rparr>
                   else st\<lparr>brewDevices := filter (\<lambda>device. deviceId device \<noteq> i) (brewDevices st)\<rparr>)"
    and wD: "items wD =
               (if defaultBrewDevice st = i
                then ((items w)(BREW_DEVICES_STORAGE_KEY \<mapsto>
                        stringifyDevices P (filter (\<lambda>device. deviceId device \<noteq> i) (brewDevices st))))
                       (DEFAULT_BREW_DEVICE_KEY := None)
                else (items w)(BREW_DEVICES_STORAGE_KEY \<mapsto>
                        stringifyDevices P (filter (\<lambda>device. deviceId device \<noteq> i) (brewDevices st))))"
    using assms(3)
    by (auto simp: handleRemoveBrewDevice_def Let_def setItem_def removeItem_def split: if_splits)
  have dG: "stG = (if defaultGrinder st = i
                   then st\<lparr>grinders := filter (\<lambda>grinder. deviceId grinder \<noteq> i) (grinders st),
                           defaultGrinder := []\<rparr>
                   else st\<lparr>grinders := filter (\<lambda>grinder. deviceId grinder \<noteq> i) (grinders st)\<rparr>)"
    and wG: "items wG =
               (if defaultGrinder st = i
                then ((items w)(GRINDERS_STORAGE_KEY \<mapsto>
                        stringifyDevices P (filter (\<lambda>grinder. deviceId grinder \<noteq> i) (grinders st))))
                       (DEFAULT_GRINDER_KEY := None)
                else (items w)(GRINDERS_STORAGE_KEY \<mapsto>
                        stringifyDevices P (filter (\<lambda>grinder. deviceId grinder \<noteq> i) (grinders st))))"
    using assms(4)
    by (auto simp: handleRemoveGrinder_def Let_def setItem_def removeItem_def split: if_splits)
  note K = storage_keys_distinct storage_keys_distinct [symmetric]
  have c1: "items w DEFAULT_BREW_DEVICE_KEY = Some i \<longrightarrow> items wD DEFAULT_BREW_DEVICE_KEY = None"
    using assms(1) wD by (auto simp: orElse_def)
  have c2: "items w DEFAULT_GRINDER_KEY = Some i \<longrightarrow> items wG DEFAULT_GRINDER_KEY = None"
    using assms(2) wG by (auto simp: orElse_def)
  have c3: "brewDevices stD = filter (\<lambda>device. deviceId device \<noteq> i) (brewDevices st)"
    using dD by auto
  have c4: "grinders stG = filter (\<lambda>grinder. deviceId grinder \<noteq> i) (grinders st)"
    using dG by auto
  have c5: "items wD BREW_DEVICES_STORAGE_KEY = Some (stringifyDevices P (brewDevices stD))"
    using c3 wD K by auto
  have c6: "items wG GRINDERS_STORAGE_KEY = Some (stringifyDevices P (grinders stG))"
    using c4 wG K by auto
  have c7: "(\<forall>p. items w DEFAULT_BREW_DEVICE_KEY = Some p \<longrightarrow> p \<in> deviceId ` set (brewDevices st))
            \<longrightarrow> (\<forall>p. items wD DEFAULT_BREW_DEVICE_KEY = Some p \<longrightarrow>
                       p \<in> deviceId ` set (brewDevices stD))"
  proof (intro impI allI)
    fix p
    assume valid: "\<forall>p. items w DEFAULT_BREW_DEVICE_KEY = Some p \<longrightarrow> p \<in> deviceId ` set (brewDevices st)"
      and after: "items wD DEFAULT_BREW_DEVICE_KEY = Some p"
    have ne: "defaultBrewDevice st \<noteq> i"
      using after wD by (auto split: if_splits)
    then have before: "items w DEFAULT_BREW_DEVICE_KEY = Some p"
      using after wD K by (auto split: if_splits)
    then have "p \<in> deviceId ` set (brewDevices st)" using valid by blast
    moreover have "p \<noteq> i"
      using ne before assms(1) by (auto simp: orElse_def split: if_splits)
    ultimately show "p \<in> deviceId ` set (brewDevices stD)"
      using c3 by auto
  qed
  have c8: "(\<forall>p. items w DEFAULT_GRINDER_KEY = Some p \<longrightarrow> p \<in> deviceId ` set (grinders st))
            \<longrightarrow> (\<forall>p. items wG DEFAULT_GRINDER_KEY = Some p \<longrightarrow>
                       p \<in> deviceId ` set (grinders stG))"
  proof (intro impI allI)
    fix p
    assume valid: "\<forall>p. items w DEFAULT_GRINDER_KEY = Some p \<longrightarrow> p \<in> deviceId ` set (grinders st)"
      and after: "items wG DEFAULT_GRINDER_KEY = Some p"
    have ne: "defaultGrinder st \<noteq> i"
      using after wG by (auto split: if_splits)
    then have before: "items w DEFAULT_GRINDER_KEY = Some p"
      using after wG K by (auto split: if_splits)
    then have "p \<in> deviceId ` set (grinders st)" using valid by blast
    moreover have "p \<noteq> i"
      using ne before assms(2) by (auto simp: orElse_def split: if_splits)
    ultimately show "p \<in> deviceId ` set (grinders stG)"
      using c4 by auto
  qed
  have c9: "defaultBrewDevice stD = orElse (items wD DEFAULT_BREW_DEVICE_KEY) []"
    using assms(1) dD wD K by (auto simp: orElse_def)
  have c10: "defaultGrinder stD = orElse (items wD DEFAULT_GRINDER_KEY) []"
    using assms(2) dD wD K by (auto simp: orElse_def)
  have c11: "defaultBrewDevice stG = orElse (items wG DEFAULT_BREW_DEVICE_KEY) []"
    using assms(1) dG wG K by (auto simp: orElse_def)
  have c12: "defaultGrinder stG = orElse (items wG DEFAULT_GRINDER_KEY) []"
    using assms(2) dG wG K by (auto simp: orElse_def)
  from c1 c2 c3 c4 c5 c6 c7 c8 c9 c10 c11 c12 show ?thesis by blast
qed

text \<open>
  The theorem at a store with two brew devices, the first being the default.
\<close>

theorem removing_default_equipment_clears_pointer_witness:
  "items (snd (handleRemoveBrewDevice equipmentPlatform (js ''1'') loadedSettings settingsWorld))
     DEFAULT_BREW_DEVICE_KEY = None
   \<and> brewDevices (fst (handleRemoveBrewDevice equipmentPlatform (js ''1'') loadedSettings
                         settingsWorld)) = tl exampleDevices"
proof -
  let ?D = "handleRemoveBrewDevice equipmentPlatform (js ''1'') loadedSettings settingsWorld"
  let ?G = "handleRemoveGrinder equipmentPlatform (js ''1'') loadedSettings settingsWorld"
  note K = storage_keys_distinct storage_keys_distinct [symmetric]
  have h1: "defaultBrewDevice loadedSettings = orElse (items settingsWorld DEFAULT_BREW_DEVICE_KEY) []"
    by (simp add: loadedSettings_def settingsWorld_def orElse_def js_def)
  have h2: "defaultGrinder loadedSettings = orElse (items settingsWorld DEFAULT_GRINDER_KEY) []"
    using K by (simp add: loadedSettings_def settingsWorld_def orElse_def)
  have h3: "?D = (fst ?D, snd ?D)" by simp
  have h4: "?G = (fst ?G, snd ?G)" by simp
  have p: "items settingsWorld DEFAULT_BREW_DEVICE_KEY = Some (js ''1'')"
    by (simp add: settingsWorld_def)
  note T = removing_default_equipment_clears_pointer [OF h1 h2 h3 h4]
  have "items (snd ?D) DEFAULT_BREW_DEVICE_KEY = None"
    using T [THEN conjunct1] p by blast
  moreover have "brewDevices (fst ?D) = tl exampleDevices"
    using T [THEN conjunct2, THEN conjunct2, THEN conjunct1]
    by (simp add: loadedSettings_def exampleDevices_def js_def)
  ultimately show ?thesis by blast
qed

text \<open>
  The handlers compare the removed id with the default selection of the screen and
  never read the stored pointer. When the grinders document does not parse,
  \<open>loadData\<close> stops before the default selections are read: the screen has no
  default brew device although device 1 is stored as the default, and removing
  device 1 leaves the pointer in the store, where it refers to a device that is gone.
  A stored pointer that refers to no device of the list stays as it is when another
  device is removed.
\<close>

theorem stale_default_counterexample:
  "items corruptSettingsWorld DEFAULT_BREW_DEVICE_KEY = Some (js ''1'')
   \<and> items (snd (handleRemoveBrewDevice equipmentPlatform (js ''1'')
                    (fst (loadData equipmentPlatform initialSettings corruptSettingsWorld))
                    (snd (loadData equipmentPlatform initialSettings corruptSettingsWorld))))
        DEFAULT_BREW_DEVICE_KEY = Some (js ''1'')
   \<and> items (snd (handleRemoveBrewDevice equipmentPlatform (js ''1'')
                    (fst (loadData equipmentPlatform initialSettings corruptSettingsWorld))
                    (snd (loadData equipmentPlatform initialSettings corruptSettingsWorld))))
        BREW_DEVICES_STORAGE_KEY = Some remainingDevicesText
   \<and> js ''1'' \<notin> deviceId ` set (tl exampleDevices)
   \<and> items (snd (handleRemoveBrewDevice equipmentPlatform (js ''1'')
                    (fst (loadData equipmentPlatform initialSettings danglingSettingsWorld))
                    (snd (loadData equipmentPlatform initialSettings danglingSettingsWorld))))
        DEFAULT_BREW_DEVICE_KEY = Some (js ''7'')
   \<and> js ''7'' \<notin> deviceId ` set (brewDevices (fst (handleRemoveBrewDevice equipmentPlatform (js ''1'')
                    (fst (loadData equipmentPlatform initialSettings danglingSettingsWorld))
                    (snd (loadData equipmentPlatform initialSettings danglingSettingsWorld)))))"
proof -
  note K = storage_keys_distinct storage_keys_distinct [symmetric]
  have texts: "truncatedGrindersText \<noteq> exampleDevicesText"
    "truncatedGrindersText \<noteq> exampleGrindersText" "exampleGrindersText \<noteq> exampleDevicesText"
    by (simp_all add: truncatedGrindersText_def exampleDevicesText_def exampleGrindersText_def js_def)
  have k: "trim (js ''sk-example'') \<noteq> []" "js ''sk-example'' \<noteq> []"
    "js ''sk-example'' \<noteq> apiKeyPlaceholder"
    using example_key_usable by simp_all
  have L: "loadData equipmentPlatform initialSettings corruptSettingsWorld =
             (initialSettings\<lparr>brewDevices := exampleDevices\<rparr>,
              corruptSettingsWorld\<lparr>events :=
                 [GetItem BREW_DEVICES_STORAGE_KEY, GetItem GRINDERS_STORAGE_KEY]\<rparr>)"
    using K texts k
    by (simp add: loadData_def loadEquipmentList_def getApiKeyInternal_def getItem_def
          equipmentPlatform_def examplePlatform_def corruptSettingsWorld_def)
  have L2: "loadData equipmentPlatform initialSettings danglingSettingsWorld =
             (initialSettings\<lparr>brewDevices := exampleDevices, grinders := exampleGrinders,
                 defaultBrewDevice := js ''7''\<rparr>,
              danglingSettingsWorld\<lparr>events :=
                 [GetItem BREW_DEVICES_STORAGE_KEY, GetItem GRINDERS_STORAGE_KEY,
                  GetItem DEFAULT_BREW_DEVICE_KEY, GetItem DEFAULT_GRINDER_KEY]\<rparr>)"
    using K texts k
    by (simp add: loadData_def loadEquipmentList_def getApiKeyInternal_def getItem_def
          equipmentPlatform_def examplePlatform_def danglingSettingsWorld_def truthy_def
          initialSettings_def js_def)
  have f: "filter (\<lambda>device. deviceId device \<noteq> js ''1'') exampleDevices = tl exampleDevices"
    by (simp add: exampleDevices_def js_def)
  have ne: "tl exampleDevices \<noteq> exampleDevices"
    by (simp add: exampleDevices_def)
  show ?thesis
    unfolding L L2 using K f ne
    by (simp add: handleRemoveBrewDevice_def Let_def setItem_def removeItem_def
          initialSettings_def corruptSettingsWorld_def danglingSettingsWorld_def
          equipmentPlatform_def examplePlatform_def)
       (simp add: exampleDevices_def js_def)
qed

section \<open>Properties: the suggestion prompt\<close>

lemma relevantBrews_candidates:
  "relevantBrews lower selectedBeanName previousBrews =
     take 5 (sort_key (\<lambda>brew. - rating brew) (candidateBrews lower selectedBeanName previousBrews))"
  by (cases selectedBeanName) (simp_all add: relevantBrews_def candidateBrews_def truthy_def)

lemma take_sorted_top:
  assumes "sorted (map f xs)" and "a \<in> set (take n xs)" and "b \<in> set xs" and "b \<notin> set (take n xs)"
  shows "f a \<le> f b"
proof -
  have "xs = take n xs @ drop n xs" by simp
  then have "sorted (map f (take n xs) @ map f (drop n xs))"
    using assms(1) by (metis map_append)
  moreover have "b \<in> set (drop n xs)"
    using assms(3,4) by (metis Un_iff append_take_drop_id set_append)
  ultimately show ?thesis
    using assms(2) by (auto simp: sorted_append)
qed

lemma promptHistory_listing:
  "promptHistory relevant =
     (if relevant = [] then []
      else js ''\<newline>Relevant previous brews of the same bean (sorted by rating):\<newline>'' @
           concat (map (\<lambda>k. previousBrewText k (relevant ! k)) [0..<length relevant]))"
proof -
  have "map (\<lambda>(index, brew). previousBrewText index brew) (enumerate 0 relevant)
          = map (\<lambda>k. previousBrewText k (relevant ! k)) [0..<length relevant]"
    by (rule nth_equalityI) (simp_all add: nth_enumerate_eq)
  then show ?thesis by (simp add: promptHistory_def)
qed

lemma requestSuggestion_sends_prompt:
  assumes "storedList (parseDevices P) (items w BREW_DEVICES_STORAGE_KEY) = Some devices"
    and "storedList (parseDevices P) (items w GRINDERS_STORAGE_KEY) = Some grinderList"
    and "fst (requestSuggestion P b prev sel gid gname w) = Inr response"
  shows "events (snd (requestSuggestion P b prev sel gid gname w)) \<noteq> [] \<and>
         last (events (snd (requestSuggestion P b prev sel gid gname w))) =
           ApiRequest (SuggestionRequest
             (buildPrompt (toLowerCase P) devices grinderList b prev sel gname))"
  using assms
  by (auto simp: requestSuggestion_def getItem_def makeOpenAICall_def getApiKeyInternal_def
        sendRequest_def Let_def split: option.splits if_splits)

lemma snd_getBrewSuggestions:
  "snd (getBrewSuggestions P b prev sel gid gname w) = snd (requestSuggestion P b prev sel gid gname w)"
  by (cases "requestSuggestion P b prev sel gid gname w")
     (auto simp: getBrewSuggestions_def split: sum.splits)

lemma includesStr_appendI: "includesStr s p \<Longrightarrow> includesStr (a @ s) p"
  by (induction a) auto

lemma includesStr_prefixI: "includesStr (p @ rest) p"
proof (cases "p @ rest")
  case Nil
  then show ?thesis by simp
next
  case (Cons c cs)
  have "startsWith (p @ rest) p" by (simp add: startsWith_def)
  then show ?thesis unfolding Cons by simp
qed

text \<open>
  C7 (amended). The prompt is the head, the history and the tail. The history
  lists the brews of \<open>relevantBrews\<close>, numbered from 1: at most five brews, the
  best rated of the candidates, highest rating first. The candidates are the
  previous brews whose bean name equals the selected bean name up to case when a
  non-empty selected bean name is given, and all previous brews otherwise. The
  name of the brew device (of the grinder) is the name of the first stored
  equipment with the id of the brew, or \<open>Unknown\<close>; when the brew has no such id,
  the names of the stored equipment that occur in the notes up to case are listed
  as possible equipment, and none when the notes are empty. This prompt is the one
  that \<open>getBrewSuggestions\<close> sends.
\<close>

theorem prompt_embeds_top_rated_brews:
  assumes "relevant = relevantBrews lower selectedBeanName previousBrews"
    and "candidates = candidateBrews lower selectedBeanName previousBrews"
    and "brewDeviceName = equipmentName devices (brewDevice currentBrew)"
    and "grinderName = equipmentName grinderList (grinder currentBrew)"
  shows "buildPrompt lower devices grinderList currentBrew previousBrews selectedBeanName
           currentGrinderName =
           promptHead currentBrew brewDeviceName grinderName
             (possibleEquipment lower devices brewDeviceName (notes currentBrew))
             (possibleEquipment lower grinderList grinderName (notes currentBrew))
           @ promptHistory relevant @ promptTail currentGrinderName
       \<and> promptHistory relevant =
           (if relevant = [] then []
            else js ''\<newline>Relevant previous brews of the same bean (sorted by rating):\<newline>'' @
                 concat (map (\<lambda>k. previousBrewText k (relevant ! k)) [0..<length relevant]))
       \<and> length relevant = min 5 (length candidates)
       \<and> set relevant \<subseteq> set candidates
       \<and> sorted_wrt (\<lambda>a b. rating b \<le> rating a) relevant
       \<and> (\<forall>a \<in> set relevant. \<forall>b \<in> set candidates. b \<notin> set relevant \<longrightarrow> rating b \<le> rating a)
       \<and> (\<forall>i. brewDevice currentBrew = Some i \<and> i \<noteq> [] \<longrightarrow>
              brewDeviceName =
                Some (case find (\<lambda>device. deviceId device = i) devices of
                        None \<Rightarrow> js ''Unknown''
                      | Some device \<Rightarrow>
                          if deviceName device \<noteq> [] then deviceName device else js ''Unknown''))
       \<and> (\<forall>i. grinder currentBrew = Some i \<and> i \<noteq> [] \<longrightarrow>
              grinderName =
                Some (case find (\<lambda>device. deviceId device = i) grinderList of
                        None \<Rightarrow> js ''Unknown''
                      | Some device \<Rightarrow>
                          if deviceName device \<noteq> [] then deviceName device else js ''Unknown''))
       \<and> (brewDevice currentBrew = None \<or> brewDevice currentBrew = Some [] \<longrightarrow>
              brewDeviceName = None \<and>
              possibleEquipment lower devices brewDeviceName (notes currentBrew) =
                (if notes currentBrew = [] then []
                 else map deviceName
                        (filter (\<lambda>device. includesStr (lower (notes currentBrew))
                                             (lower (deviceName device))) devices)))
       \<and> (grinder currentBrew = None \<or> grinder currentBrew = Some [] \<longrightarrow>
              grinderName = None \<and>
              possibleEquipment lower grinderList grinderName (notes currentBrew) =
                (if notes currentBrew = [] then []
                 else map deviceName
                        (filter (\<lambda>device. includesStr (lower (notes currentBrew))
                                             (lower (deviceName device))) grinderList)))
       \<and> (\<forall>P w currentGrinderId response.
              lower = toLowerCase P \<and>
              storedList (parseDevices P) (items w BREW_DEVICES_STORAGE_KEY) = Some devices \<and>
              storedList (parseDevices P) (items w GRINDERS_STORAGE_KEY) = Some grinderList \<and>
              fst (requestSuggestion (P :: ('n, 'c) platform) currentBrew previousBrews
                     selectedBeanName currentGrinderId currentGrinderName w) = Inr response \<longrightarrow>
              last (events (snd (getBrewSuggestions P currentBrew previousBrews selectedBeanName
                                   currentGrinderId currentGrinderName w))) =
                ApiRequest (SuggestionRequest
                  (buildPrompt lower devices grinderList currentBrew previousBrews
                     selectedBeanName currentGrinderName)))"
proof -
  let ?key = "\<lambda>brew. - rating brew"
  let ?sorted = "sort_key ?key candidates"
  have rel: "relevant = take 5 ?sorted"
    using assms(1,2) by (simp add: relevantBrews_candidates)
  have c1: "buildPrompt lower devices grinderList currentBrew previousBrews selectedBeanName
           currentGrinderName =
           promptHead currentBrew brewDeviceName grinderName
             (possibleEquipment lower devices brewDeviceName (notes currentBrew))
             (possibleEquipment lower grinderList grinderName (notes currentBrew))
           @ promptHistory relevant @ promptTail currentGrinderName"
    using assms(1,3,4) by (simp add: buildPrompt_def Let_def)
  have c2: "promptHistory relevant =
           (if relevant = [] then []
            else js ''\<newline>Relevant previous brews of the same bean (sorted by rating):\<newline>'' @
                 concat (map (\<lambda>k. previousBrewText k (relevant ! k)) [0..<length relevant]))"
    by (rule promptHistory_listing)
  have c3: "length relevant = min 5 (length candidates)"
    using rel by (simp add: min.commute)
  have c4: "set relevant \<subseteq> set candidates"
    using rel set_take_subset [of 5 ?sorted] by simp
  have srt: "sorted (map ?key ?sorted)" by (rule sorted_sort_key)
  then have "sorted (map ?key relevant)"
    unfolding rel by (simp add: sorted_wrt_take take_map [symmetric] del: take_map)
  then have c5: "sorted_wrt (\<lambda>a b. rating b \<le> rating a) relevant"
    by (simp add: sorted_map)
  have c6: "\<forall>a \<in> set relevant. \<forall>b \<in> set candidates. b \<notin> set relevant \<longrightarrow> rating b \<le> rating a"
  proof (intro ballI impI)
    fix a b assume "a \<in> set relevant" "b \<in> set candidates" "b \<notin> set relevant"
    then have "?key a \<le> ?key b"
      using take_sorted_top [OF srt, of a 5 b] rel by simp
    then show "rating b \<le> rating a" by simp
  qed
  have c7: "\<forall>i. brewDevice currentBrew = Some i \<and> i \<noteq> [] \<longrightarrow>
              brewDeviceName =
                Some (case find (\<lambda>device. deviceId device = i) devices of
                        None \<Rightarrow> js ''Unknown''
                      | Some device \<Rightarrow>
                          if deviceName device \<noteq> [] then deviceName device else js ''Unknown'')"
    using assms(3)
    by (auto simp: equipmentName_def truthy_def lookupName_def orElse_def split: option.splits)
  have c8: "\<forall>i. grinder currentBrew = Some i \<and> i \<noteq> [] \<longrightarrow>
              grinderName =
                Some (case find (\<lambda>device. deviceId device = i) grinderList of
                        None \<Rightarrow> js ''Unknown''
                      | Some device \<Rightarrow>
                          if deviceName device \<noteq> [] then deviceName device else js ''Unknown'')"
    using assms(4)
    by (auto simp: equipmentName_def truthy_def lookupName_def orElse_def split: option.splits)
  have c9: "brewDevice currentBrew = None \<or> brewDevice currentBrew = Some [] \<longrightarrow>
              brewDeviceName = None \<and>
              possibleEquipment lower devices brewDeviceName (notes currentBrew) =
                (if notes currentBrew = [] then []
                 else map deviceName
                        (filter (\<lambda>device. includesStr (lower (notes currentBrew))
                                             (lower (deviceName device))) devices))"
    using assms(3) by (auto simp: equipmentName_def truthy_def possibleEquipment_def)
  have c10: "grinder currentBrew = None \<or> grinder currentBrew = Some [] \<longrightarrow>
              grinderName = None \<and>
              possibleEquipment lower grinderList grinderName (notes currentBrew) =
                (if notes currentBrew = [] then []
                 else map deviceName
                        (filter (\<lambda>device. includesStr (lower (notes currentBrew))
                                             (lower (deviceName device))) grinderList))"
    using assms(4) by (auto simp: equipmentName_def truthy_def possibleEquipment_def)
  have c11: "\<forall>P w currentGrinderId response.
              lower = toLowerCase P \<and>
              storedList (parseDevices P) (items w BREW_DEVICES_STORAGE_KEY) = Some devices \<and>
              storedList (parseDevices P) (items w GRINDERS_STORAGE_KEY) = Some grinderList \<and>
              fst (requestSuggestion (P :: ('n, 'c) platform) currentBrew previousBrews
                     selectedBeanName currentGrinderId currentGrinderName w) = Inr response \<longrightarrow>
              last (events (snd (getBrewSuggestions P currentBrew previousBrews selectedBeanName
                                   currentGrinderId currentGrinderName w))) =
                ApiRequest (SuggestionRequest
                  (buildPrompt lower devices grinderList currentBrew previousBrews
                     selectedBeanName currentGrinderName))"
  proof (intro allI impI, elim conjE)
    fix P :: "('n, 'c) platform" and w currentGrinderId response
    assume l: "lower = toLowerCase P"
      and d: "storedList (parseDevices P) (items w BREW_DEVICES_STORAGE_KEY) = Some devices"
      and g: "storedList (parseDevices P) (items w GRINDERS_STORAGE_KEY) = Some grinderList"
      and r: "fst (requestSuggestion P currentBrew previousBrews selectedBeanName
                     currentGrinderId currentGrinderName w) = Inr response"
    show "last (events (snd (getBrewSuggestions P currentBrew previousBrews selectedBeanName
                                   currentGrinderId currentGrinderName w))) =
                ApiRequest (SuggestionRequest
                  (buildPrompt lower devices grinderList currentBrew previousBrews
                     selectedBeanName currentGrinderName))"
      using requestSuggestion_sends_prompt [OF d g r] l
      by (simp add: snd_getBrewSuggestions)
  qed
  from c1 c2 c3 c4 c5 c6 c7 c8 c9 c10 c11 show ?thesis by blast
qed

lemma example_candidates:
  "candidateBrews asciiToLowerCase (Some (js ''yirgacheffe'')) [exampleBrew, kenyaBrew, bestBrew]
     = [exampleBrew, bestBrew]"
  by (simp add: candidateBrews_def asciiToLowerCase_def js_def exampleBrew_def kenyaBrew_def
        bestBrew_def)

text \<open>
  The theorem at three previous brews, two of them of the selected bean, which is
  given in lower case.
\<close>

theorem prompt_embeds_top_rated_brews_witness:
  "length (relevantBrews asciiToLowerCase (Some (js ''yirgacheffe''))
             [exampleBrew, kenyaBrew, bestBrew]) = 2
   \<and> set (relevantBrews asciiToLowerCase (Some (js ''yirgacheffe''))
             [exampleBrew, kenyaBrew, bestBrew]) \<subseteq> {exampleBrew, bestBrew}
   \<and> sorted_wrt (\<lambda>a b. rating b \<le> rating a)
        (relevantBrews asciiToLowerCase (Some (js ''yirgacheffe''))
           [exampleBrew, kenyaBrew, bestBrew])"
proof -
  note T = prompt_embeds_top_rated_brews
          [where lower = asciiToLowerCase and selectedBeanName = "Some (js ''yirgacheffe'')"
             and previousBrews = "[exampleBrew, kenyaBrew, bestBrew]"
             and devices = "[]" and grinderList = "[]" and currentBrew = exampleBrew
             and currentGrinderName = None, OF refl refl refl refl]
  note rest = T [THEN conjunct2, THEN conjunct2]
  have "length (relevantBrews asciiToLowerCase (Some (js ''yirgacheffe''))
             [exampleBrew, kenyaBrew, bestBrew]) = 2"
    using rest [THEN conjunct1] by (simp add: example_candidates)
  moreover have "set (relevantBrews asciiToLowerCase (Some (js ''yirgacheffe''))
             [exampleBrew, kenyaBrew, bestBrew]) \<subseteq> {exampleBrew, bestBrew}"
    using rest [THEN conjunct2, THEN conjunct1] by (simp add: example_candidates)
  moreover have "sorted_wrt (\<lambda>a b. rating b \<le> rating a)
        (relevantBrews asciiToLowerCase (Some (js ''yirgacheffe''))
           [exampleBrew, kenyaBrew, bestBrew])"
    using rest [THEN conjunct2, THEN conjunct2, THEN conjunct1] .
  ultimately show ?thesis by blast
qed

text \<open>
  C7 as stated fails. With the empty string as selected bean name the brew of
  another bean is embedded in the prompt. For a brew without device id and
  without notes, a stored device with an empty name is not listed as possible
  device, although its name occurs in the notes.
\<close>

theorem empty_selected_name_counterexample:
  "relevantBrews asciiToLowerCase (Some []) [kenyaBrew] = [kenyaBrew]
   \<and> asciiToLowerCase (beanName kenyaBrew) \<noteq> asciiToLowerCase []
   \<and> includesStr (buildPrompt asciiToLowerCase [] [] exampleBrew [kenyaBrew] (Some []) None)
        (js ''Brew #1 (Rating: 9/10)'')
   \<and> brewDevice exampleBrew = None
   \<and> includesStr (asciiToLowerCase (notes exampleBrew))
        (asciiToLowerCase (deviceName namelessDevice))
   \<and> possibleEquipment asciiToLowerCase [namelessDevice]
        (equipmentName [namelessDevice] (brewDevice exampleBrew)) (notes exampleBrew) = []"
proof -
  have a: "relevantBrews asciiToLowerCase (Some []) [kenyaBrew] = [kenyaBrew]"
    by (simp add: relevantBrews_def truthy_def)
  have b: "asciiToLowerCase (beanName kenyaBrew) \<noteq> asciiToLowerCase []"
    by (simp add: kenyaBrew_def asciiToLowerCase_def js_def)
  have "rating kenyaBrew = 9" by (simp add: kenyaBrew_def)
  then have "previousBrewText 0 kenyaBrew =
          [0x0A] @ js ''Brew #1 (Rating: 9/10)'' @
          (js '':\<newline>'' @
           js ''- Steep Time: '' @ formatTime (steepTime kenyaBrew) @ js ''\<newline>'' @
           js ''- Grind Size: '' @ grindSize kenyaBrew @ js ''\<newline>'' @
           js ''- Water Temperature: '' @ waterTemp kenyaBrew @ js ''\<newline>'' @
           bloomLine kenyaBrew @ js ''\<newline>'' @
           notesLine kenyaBrew @ js ''\<newline>'')"
    by (simp add: previousBrewText_def numToString_def js_def)
  then have "includesStr (previousBrewText 0 kenyaBrew @ rest) (js ''Brew #1 (Rating: 9/10)'')" for rest
    using includesStr_appendI [OF includesStr_prefixI, of "[0x0A]" "js ''Brew #1 (Rating: 9/10)''"]
    by simp
  then have "includesStr (promptHistory [kenyaBrew] @ rest) (js ''Brew #1 (Rating: 9/10)'')" for rest
    using includesStr_appendI by (simp add: promptHistory_def)
  then have c: "includesStr (buildPrompt asciiToLowerCase [] [] exampleBrew [kenyaBrew] (Some []) None)
        (js ''Brew #1 (Rating: 9/10)'')"
    using includesStr_appendI by (simp add: buildPrompt_def Let_def a)
  have d: "brewDevice exampleBrew = None
     \<and> includesStr (asciiToLowerCase (notes exampleBrew))
          (asciiToLowerCase (deviceName namelessDevice))
     \<and> possibleEquipment asciiToLowerCase [namelessDevice]
          (equipmentName [namelessDevice] (brewDevice exampleBrew)) (notes exampleBrew) = []"
    by (simp add: exampleBrew_def namelessDevice_def asciiToLowerCase_def possibleEquipment_def)
  from a b c d show ?thesis by blast
qed

end
